theory Spec2Isabelle
  imports Main "HOL-Library.Word" "HOL-Library.Signed_Division" "HOL-Library.Sublist"
    "HOL-Library.Multiset"
begin

section \<open>Shared data model\<close>

text \<open>
  Go's fixed-width integers are words read in two's complement (\<open>sint\<close>); Go's \<open>int\<close>
  only ever holds slice lengths and their differences here, so it is an unbounded \<open>int\<close>.
  A conversion \<open>int32(n)\<close> truncates: \<open>word_of_int n\<close>.
\<close>

type_synonym int32 = "32 word"
type_synonym int64 = "64 word"
type_synonym bytes = "8 word list"
type_synonym NodeID = "8 word list"
type_synonym PieceID = "8 word list"
type_synonym Path = string

text \<open>A Go call either panics at run time or returns.\<close>

datatype 'a go = Panic | Ret 'a

text \<open>
  An error value: the sentinel \<open>context.DeadlineExceeded\<close>, or an error that carries the
  \<open>errs\<close> classes of its wrap chain and the text \<open>Error()\<close> prints.
\<close>

datatype error = DeadlineExceeded | Error "string list" string

fun Has :: "string \<Rightarrow> error \<Rightarrow> bool" where
  "Has c DeadlineExceeded = False"
| "Has c (Error cs msg) = (c \<in> set cs)"

fun ErrorText :: "error \<Rightarrow> string" where
  "ErrorText DeadlineExceeded = ''context deadline exceeded''"
| "ErrorText (Error cs msg) = msg"

text \<open>\<open>errs.New(msg)\<close>, and \<open>Class.New(msg)\<close> of zeebo/errs, which prefixes the class name.\<close>

definition errs_New :: "string \<Rightarrow> error" where
  "errs_New msg = Error [] msg"

definition Class_New :: "string \<Rightarrow> string \<Rightarrow> error" where
  "Class_New c msg = Error [c] (c @ '': '' @ msg)"

text \<open>Decimal printing, as \<open>strconv.FormatInt(n, 10)\<close> and the verbs \<open>%v\<close>, \<open>%d\<close> do.\<close>

fun FormatNat :: "nat \<Rightarrow> string" where
  "FormatNat n =
     (if n < 10 then [char_of (48 + n)]
      else FormatNat (n div 10) @ [char_of (48 + n mod 10)])"

definition FormatInt :: "int \<Rightarrow> string" where
  "FormatInt i = (if i < 0 then ''-'' @ FormatNat (nat (- i)) else FormatNat (nat i))"

subsection \<open>The pointer (package pb)\<close>

datatype DataType = INLINE | REMOTE

record RedundancyScheme =
  MinReq :: int32
  Total :: int32
  RepairThreshold :: int32
  SuccessThreshold :: int32
  ErasureShareSize :: int32

record RemotePiece =
  PieceNum :: int32
  NodeId :: NodeID
  Hash :: "bytes option"

text \<open>A pointer field or a slice may be \<open>nil\<close>: \<open>None\<close>.\<close>

record RemoteSegment =
  Redundancy :: "RedundancyScheme option"
  RootPieceId :: PieceID
  RemotePieces :: "RemotePiece list option"

record Pointer =
  Type :: DataType
  InlineSegment :: "bytes option"
  Remote :: "RemoteSegment option"
  SegmentSize :: int64
  ExpirationDate :: int64
  Metadata :: bytes

text \<open>The generated getters are nil-safe: a missing message reads as its zero value.\<close>

definition elems :: "'a list option \<Rightarrow> 'a list" where
  "elems s = (case s of None \<Rightarrow> [] | Some xs \<Rightarrow> xs)"

definition GetRemotePieces :: "RemoteSegment option \<Rightarrow> RemotePiece list" where
  "GetRemotePieces r = (case r of None \<Rightarrow> [] | Some s \<Rightarrow> elems (RemotePieces s))"

definition GetRedundancy :: "RemoteSegment option \<Rightarrow> RedundancyScheme option" where
  "GetRedundancy r = (case r of None \<Rightarrow> None | Some s \<Rightarrow> Redundancy s)"

definition GetMinReq :: "RedundancyScheme option \<Rightarrow> int32" where
  "GetMinReq r = (case r of None \<Rightarrow> 0 | Some s \<Rightarrow> MinReq s)"

definition GetTotal :: "RedundancyScheme option \<Rightarrow> int32" where
  "GetTotal r = (case r of None \<Rightarrow> 0 | Some s \<Rightarrow> Total s)"

definition GetErasureShareSize :: "RedundancyScheme option \<Rightarrow> int32" where
  "GetErasureShareSize r = (case r of None \<Rightarrow> 0 | Some s \<Rightarrow> ErasureShareSize s)"

section \<open>satellite/metainfo: space accounting on commit\<close>

text \<open>Go's \<open>/\<close> on \<open>int64\<close> truncates towards zero and panics on a zero divisor.\<close>

definition go_div64 :: "int64 \<Rightarrow> int64 \<Rightarrow> int64 go" where
  "go_div64 a b = (if b = 0 then Panic else Ret (word_of_int (sint a sdiv sint b)))"

definition calculateSpaceUsed :: "Pointer \<Rightarrow> (int64 \<times> int64) go" where
  "calculateSpaceUsed ptr =
     (case InlineSegment ptr of
        Some inline \<Rightarrow> Ret (word_of_int (int (length inline)), 0)
      | None \<Rightarrow>
          (let segmentSize = SegmentSize ptr; remote = Remote ptr in
           if remote = None then Ret (0, 0)
           else
             (let minReq = GetMinReq (GetRedundancy remote) in
              case go_div64 segmentSize (signed minReq) of
                Panic \<Rightarrow> Panic
              | Ret pieceSize \<Rightarrow>
                  (let pieces = GetRemotePieces remote in
                   Ret (0, pieceSize * word_of_int (int (length pieces)))))))"

section \<open>satellite/metainfo: the commit endpoint\<close>

datatype Code = Unauthenticated | InvalidArgument | NotFound | ResourceExhausted | Internal

text \<open>The text \<open>Error()\<close> prints for a gRPC status error.\<close>

fun CodeName :: "Code \<Rightarrow> string" where
  "CodeName Unauthenticated = ''Unauthenticated''"
| "CodeName InvalidArgument = ''InvalidArgument''"
| "CodeName NotFound = ''NotFound''"
| "CodeName ResourceExhausted = ''ResourceExhausted''"
| "CodeName Internal = ''Internal''"

definition status_Error :: "Code \<times> string \<Rightarrow> string" where
  "status_Error st = ''rpc error: code = '' @ CodeName (fst st) @ '' desc = '' @ snd st"

datatype Op = ActionRead | ActionWrite | ActionList | ActionDelete

record Action =
  Op :: Op
  ActionBucket :: string
  EncryptedPath :: string

record APIKeyInfo =
  ProjectID :: string
  Secret :: bytes

record OrderLimit2 =
  PieceId :: PieceID
  StorageNodeId :: NodeID

record SegmentCommitRequest =
  Bucket :: string
  Path :: string
  Segment :: int64
  Pointer :: "Pointer option"
  OriginalLimits :: "OrderLimit2 option list"

text \<open>
  The endpoint's collaborators are not part of this package: what the request context,
  the macaroon package, the API key store, the orders service and the piece-ID
  derivation answer.
\<close>

record Endpoint =
  GetAPIKey :: "string option"
  ParseAPIKey :: "string \<Rightarrow> error + string"
  Head :: "string \<Rightarrow> bytes"
  GetByHead :: "bytes \<Rightarrow> error + APIKeyInfo"
  Check :: "string \<Rightarrow> bytes \<Rightarrow> Action \<Rightarrow> error option"
  VerifyOrderLimitSignature :: "OrderLimit2 option \<Rightarrow> error option"
  Derive :: "PieceID \<Rightarrow> NodeID \<Rightarrow> PieceID"
  UpdatePutInlineOrder :: "string \<Rightarrow> int64 \<Rightarrow> error option"

text \<open>
  The satellite's state: the pointer database (with the puts and gets on which its
  storage fails), the project usage recorded, and what the monitoring package was told.
\<close>

datatype Event =
    Meter string
  | IntVal string int
  | FloatVal string "int \<times> int"

record Satellite =
  pointers :: "Path \<rightharpoonup> Pointer"
  PutFails :: "Path \<Rightarrow> Pointer \<Rightarrow> error option"
  GetFails :: "Path \<Rightarrow> error option"
  usage :: "(string \<times> int64 \<times> int64) list"
  mon :: "Event list"

text \<open>
  Modelled from the spec: the metainfo service's \<open>Put\<close> and \<open>Get\<close> are missing from
  the sources; the spec has the pointer database as an opaque map from paths to
  pointers whose read of an absent key fails with \<open>KeyNotFound\<close>.
\<close>

definition metainfo_Put :: "Satellite \<Rightarrow> Path \<Rightarrow> Pointer \<Rightarrow> error option \<times> Satellite" where
  "metainfo_Put db path ptr =
     (case PutFails db path ptr of
        Some err \<Rightarrow> (Some err, db)
      | None \<Rightarrow> (None, db\<lparr>pointers := (pointers db)(path \<mapsto> ptr)\<rparr>))"

definition metainfo_Get :: "Satellite \<Rightarrow> Path \<Rightarrow> error + Pointer" where
  "metainfo_Get db path =
     (case GetFails db path of
        Some err \<Rightarrow> Inl err
      | None \<Rightarrow>
          (case pointers db path of
             None \<Rightarrow> Inl (Class_New ''key not found'' path)
           | Some ptr \<Rightarrow> Inr ptr))"

definition Error_New :: "string \<Rightarrow> error" where
  "Error_New msg = Class_New ''metainfo error'' msg"

text \<open>\<open>storj.JoinPaths\<close>: the components joined by a slash (the spec's path encoding).\<close>

fun JoinPaths :: "string list \<Rightarrow> string" where
  "JoinPaths [] = []"
| "JoinPaths [x] = x"
| "JoinPaths (x # y # ys) = x @ ''/'' @ JoinPaths (y # ys)"

definition validateAuth :: "Endpoint \<Rightarrow> Action \<Rightarrow> (Code \<times> string) + APIKeyInfo" where
  "validateAuth ep action =
     (case GetAPIKey ep of
        None \<Rightarrow> Inl (Unauthenticated, ''Invalid API credential'')
      | Some keyData \<Rightarrow>
          (case ParseAPIKey ep keyData of
             Inl err \<Rightarrow> Inl (Unauthenticated, ''Invalid API credential'')
           | Inr key \<Rightarrow>
               (case GetByHead ep (Head ep key) of
                  Inl err \<Rightarrow> Inl (Unauthenticated, ''Invalid API credential'')
                | Inr keyInfo \<Rightarrow>
                    (case Check ep key (Secret keyInfo) action of
                       Some err \<Rightarrow> Inl (Unauthenticated, ''Invalid API credential'')
                     | None \<Rightarrow> Inr keyInfo))))"

definition validateBucket :: "string \<Rightarrow> error option" where
  "validateBucket bucket =
     (if length bucket = 0 then Some (errs_New ''bucket not specified'')
      else if CHR ''/'' \<in> set bucket then Some (errs_New ''bucket should not contain slash'')
      else None)"

definition validatePointer :: "Pointer option \<Rightarrow> error option" where
  "validatePointer pointer =
     (case pointer of
        None \<Rightarrow> Some (Error_New ''no pointer specified'')
      | Some p \<Rightarrow>
          (if Type p = REMOTE then
             (case Remote p of
                None \<Rightarrow> Some (Error_New ''no remote segment specified'')
              | Some r \<Rightarrow>
                  if RemotePieces r = None then Some (Error_New ''no remote segment pieces specified'')
                  else if Redundancy r = None then Some (Error_New ''no redundancy scheme specified'')
                  else None)
           else None))"

definition IsZero :: "PieceID \<Rightarrow> bool" where
  "IsZero pid = list_all (\<lambda>b. b = 0) pid"

text \<open>
  The loop of \<open>validateCommit\<close> over the remote pieces. Indexing the limits by a piece
  number out of range panics.
\<close>

fun validatePieces ::
  "Endpoint \<Rightarrow> RemoteSegment \<Rightarrow> OrderLimit2 option list \<Rightarrow> RemotePiece list \<Rightarrow> error option go" where
  "validatePieces ep remote limits [] = Ret None"
| "validatePieces ep remote limits (piece # rest) =
     (if sint (PieceNum piece) < 0 \<or> int (length limits) \<le> sint (PieceNum piece) then Panic
      else
        (let limit = limits ! nat (sint (PieceNum piece)) in
         case VerifyOrderLimitSignature ep limit of
           Some err \<Rightarrow> Ret (Some err)
         | None \<Rightarrow>
             (case limit of
                None \<Rightarrow> Ret (Some (Error_New ''invalid no order limit for piece''))
              | Some l \<Rightarrow>
                  (let derivedPieceID = Derive ep (RootPieceId remote) (NodeId piece) in
                   if IsZero (PieceId l) \<or> PieceId l \<noteq> derivedPieceID
                   then Ret (Some (Error_New ''invalid order limit piece id''))
                   else if NodeId piece \<noteq> StorageNodeId l
                   then Ret (Some (Error_New ''piece NodeID != order limit NodeID''))
                   else validatePieces ep remote limits rest))))"

definition validateCommit :: "Endpoint \<Rightarrow> SegmentCommitRequest \<Rightarrow> error option go" where
  "validateCommit ep req =
     (case validatePointer (Pointer req) of
        Some err \<Rightarrow> Ret (Some err)
      | None \<Rightarrow>
          (case Pointer req of
             None \<Rightarrow> Panic
           | Some p \<Rightarrow>
               if Type p = REMOTE then
                 (case Remote p of
                    None \<Rightarrow> Panic
                  | Some remote \<Rightarrow>
                      if length (OriginalLimits req) = 0 then Ret (Some (Error_New ''no order limits''))
                      else
                        (case Redundancy remote of
                           None \<Rightarrow> Panic
                         | Some rs \<Rightarrow>
                             if (word_of_int (int (length (OriginalLimits req))) :: int32) \<noteq> Total rs
                             then Ret (Some (Error_New ''invalid no order limit for piece''))
                             else validatePieces ep remote (OriginalLimits req) (elems (RemotePieces remote))))
               else Ret None))"

text \<open>
  \<open>filterValidPieces\<close> rebuilds the piece list by appending to a nil slice (so an empty
  list ends as \<open>nil\<close>), checks it against the repair threshold and writes it back.
\<close>

definition appended :: "'a list \<Rightarrow> 'a list option" where
  "appended xs = (if xs = [] then None else Some xs)"

definition filterValidPieces :: "Pointer option \<Rightarrow> (error option \<times> Pointer) go" where
  "filterValidPieces pointer =
     (case pointer of
        None \<Rightarrow> Panic
      | Some p \<Rightarrow>
          if Type p = REMOTE then
            (case Remote p of
               None \<Rightarrow> Panic
             | Some remote \<Rightarrow>
                 (let remotePieces = elems (RemotePieces remote) in
                  case Redundancy remote of
                    None \<Rightarrow> Panic
                  | Some rs \<Rightarrow>
                      if sint (word_of_int (int (length remotePieces)) :: int32) \<le> sint (RepairThreshold rs)
                         \<and> RepairThreshold rs \<noteq> SuccessThreshold rs
                      then Ret (Some (Error_New
                             (''Number of valid pieces is less than or equal to the repair threshold: ''
                              @ FormatInt (int (length remotePieces)) @ '' < ''
                              @ FormatInt (sint (RepairThreshold rs)))), p)
                      else Ret (None, p\<lparr>Remote := Some (remote\<lparr>RemotePieces := appended remotePieces\<rparr>)\<rparr>)))
          else Ret (None, p))"

definition CreatePath :: "string \<Rightarrow> int64 \<Rightarrow> string \<Rightarrow> string \<Rightarrow> error + Path" where
  "CreatePath projectID segmentIndex bucket path =
     (if sint segmentIndex < - 1 then Inl (errs_New ''invalid segment index'')
      else
        (let segment = (if sint segmentIndex > - 1 then ''s'' @ FormatInt (sint segmentIndex) else ''l'') in
         Inr (JoinPaths ([projectID, segment]
                @ (if length bucket \<noteq> 0 then [bucket] else [])
                @ (if length path \<noteq> 0 then [path] else [])))))"

definition createBucketID :: "string \<Rightarrow> string \<Rightarrow> string" where
  "createBucketID projectID bucket = JoinPaths [projectID, bucket]"

text \<open>
  \<open>CommitSegment\<close>. A failed \<open>AddProjectStorageUsage\<close> is only logged, so the usage is
  recorded and the commit goes on; every other failure ends the call with a status.
\<close>

definition CommitSegment ::
  "Endpoint \<Rightarrow> Satellite \<Rightarrow> SegmentCommitRequest \<Rightarrow> (((Code \<times> string) + Pointer) \<times> Satellite) go" where
  "CommitSegment ep db req =
     (case validateAuth ep \<lparr>Op = ActionWrite, ActionBucket = Bucket req, EncryptedPath = Path req\<rparr> of
        Inl st \<Rightarrow> Ret (Inl (Unauthenticated, status_Error st), db)
      | Inr keyInfo \<Rightarrow>
     (case validateBucket (Bucket req) of
        Some err \<Rightarrow> Ret (Inl (InvalidArgument, ErrorText err), db)
      | None \<Rightarrow>
     (case validateCommit ep req of
        Panic \<Rightarrow> Panic
      | Ret (Some err) \<Rightarrow> Ret (Inl (Internal, ErrorText err), db)
      | Ret None \<Rightarrow>
     (case filterValidPieces (Pointer req) of
        Panic \<Rightarrow> Panic
      | Ret (Some err, ptr) \<Rightarrow> Ret (Inl (Internal, ErrorText err), db)
      | Ret (None, ptr) \<Rightarrow>
     (case CreatePath (ProjectID keyInfo) (Segment req) (Bucket req) (Path req) of
        Inl err \<Rightarrow> Ret (Inl (InvalidArgument, ErrorText err), db)
      | Inr path \<Rightarrow>
     (case calculateSpaceUsed ptr of
        Panic \<Rightarrow> Panic
      | Ret (inlineUsed, remoteUsed) \<Rightarrow>
     (let db1 = db\<lparr>usage := usage db @ [(ProjectID keyInfo, inlineUsed, remoteUsed)]\<rparr> in
      case metainfo_Put db1 path ptr of
        (Some err, db2) \<Rightarrow> Ret (Inl (Internal, ErrorText err), db2)
      | (None, db2) \<Rightarrow>
     (case (if Type ptr = INLINE
            then UpdatePutInlineOrder ep (createBucketID (ProjectID keyInfo) (Bucket req))
                   (word_of_int (int (length (elems (InlineSegment ptr)))))
            else None) of
        Some err \<Rightarrow> Ret (Inl (Internal, ErrorText err), db2)
      | None \<Rightarrow>
     (case metainfo_Get db2 path of
        Inl err \<Rightarrow> Ret (Inl (Internal, ErrorText err), db2)
      | Inr pointer \<Rightarrow> Ret (Inr pointer, db2))))))))))"

section \<open>pkg/storage/segments: the segment repairer\<close>

record RedundancyStrategy =
  TotalCount :: int

record Node =
  Id :: NodeID
  Address :: string

record AddressedOrderLimit =
  Limit :: OrderLimit2
  StorageNodeAddress :: string

record FindStorageNodesRequest =
  RequestedCount :: int
  FreeBandwidth :: int64
  FreeDisk :: int64
  ExcludedNodes :: "NodeID list"

text \<open>
  The repairer's collaborators (the erasure-code package, the overlay cache, the orders
  service and the erasure client) are not part of this package; each answers with a
  result or an error. A ranger and the reader it opens stand for the segment's bytes.
\<close>

record Repairer =
  NewRedundancyStrategyFromProto :: "RedundancyScheme option \<Rightarrow> error + RedundancyStrategy"
  CalcPieceSize :: "int64 \<Rightarrow> RedundancyStrategy \<Rightarrow> int64"
  GetMissingPieces :: "RemotePiece list \<Rightarrow> error + int32 list"
  CreateGetRepairOrderLimits ::
    "string \<Rightarrow> Pointer \<Rightarrow> RemotePiece list \<Rightarrow> error + AddressedOrderLimit option list"
  FindStorageNodes :: "FindStorageNodesRequest \<Rightarrow> error + Node list"
  CreatePutRepairOrderLimits ::
    "string \<Rightarrow> Pointer \<Rightarrow> AddressedOrderLimit option list \<Rightarrow> Node list
       \<Rightarrow> error + AddressedOrderLimit option list"
  ec_Get :: "AddressedOrderLimit option list \<Rightarrow> RedundancyStrategy \<Rightarrow> int64 \<Rightarrow> error + bytes"
  Range :: "bytes \<Rightarrow> error + bytes"
  Close :: "bytes \<Rightarrow> error option"
  ec_Repair ::
    "AddressedOrderLimit option list \<Rightarrow> RedundancyStrategy \<Rightarrow> bytes \<Rightarrow> int64 \<Rightarrow> Path
       \<Rightarrow> error + (Node option list \<times> bytes option list)"

text \<open>The errors \<open>Repair\<close> returns, one constructor for each place that makes one.\<close>

datatype RepairError =
    Wrap error
  | CannotRepairInline Path
  | ErrorGettingMissingPieces error
  | CannotBeRepaired Path
  | AboveRepairThreshold Path int int
  | NoBucketComponent Path
  | Unwrapped error
  | Combined RepairError error

text \<open>\<open>errs.Combine(err, r.Close())\<close> in the deferred close of the reader.\<close>

fun Combine :: "RepairError option \<Rightarrow> error option \<Rightarrow> RepairError option" where
  "Combine e None = e"
| "Combine None (Some c) = Some (Unwrapped c)"
| "Combine (Some e) (Some c) = Some (Combined e c)"

text \<open>\<open>storj.SplitPath\<close>: the path cut at every slash, as \<open>strings.Split\<close> does.\<close>

fun SplitPath :: "string \<Rightarrow> string list" where
  "SplitPath [] = [[]]"
| "SplitPath (c # cs) =
     (if c = CHR ''/'' then [] # SplitPath cs
      else (case SplitPath cs of [] \<Rightarrow> [[c]] | w # ws \<Rightarrow> (c # w) # ws))"

definition segments_createBucketID :: "Path \<Rightarrow> RepairError + string" where
  "segments_createBucketID path =
     (let comps = SplitPath path in
      if length comps < 3 then Inl (NoBucketComponent path)
      else Inr (JoinPaths [comps ! 0, comps ! 2]))"

definition sliceToSet :: "int32 list \<Rightarrow> int32 set" where
  "sliceToSet xs = set xs"

text \<open>
  The loop that keeps the pieces whose number is not lost, and the loop that appends a
  piece for every node the upload reached; reading \<open>hashes[i]\<close> past the end panics.
\<close>

definition healthy_of :: "int32 list \<Rightarrow> RemotePiece list \<Rightarrow> RemotePiece list" where
  "healthy_of missingPieces pieces =
     filter (\<lambda>piece. PieceNum piece \<notin> sliceToSet missingPieces) pieces"

fun uploaded :: "nat \<Rightarrow> Node option list \<Rightarrow> bytes option list \<Rightarrow> RemotePiece list go" where
  "uploaded i [] hashes = Ret []"
| "uploaded i (None # nodes) hashes = uploaded (Suc i) nodes hashes"
| "uploaded i (Some node # nodes) hashes =
     (if length hashes \<le> i then Panic
      else
        (case uploaded (Suc i) nodes hashes of
           Panic \<Rightarrow> Panic
         | Ret rest \<Rightarrow>
             Ret (\<lparr>PieceNum = word_of_int (int i), NodeId = Id node, Hash = hashes ! i\<rparr> # rest)))"

definition healthy_ratio :: "int \<Rightarrow> int32 \<Rightarrow> int \<times> int" where
  "healthy_ratio n totalCount = (if totalCount \<noteq> 0 then (n, sint totalCount) else (0, 1))"

definition outcome_meter :: "int32 \<Rightarrow> RedundancyScheme \<Rightarrow> string" where
  "outcome_meter len rs =
     (if sint len \<le> sint (RepairThreshold rs) then ''repair_failed''
      else if sint len < sint (SuccessThreshold rs) then ''repair_partial''
      else ''repair_success'')"

definition mark :: "Event list \<Rightarrow> Satellite \<Rightarrow> Satellite" where
  "mark es db = db\<lparr>mon := mon db @ es\<rparr>"

text \<open>
  \<open>Repair\<close>, in two parts: \<open>Repair\<close> itself runs up to the two threshold checks, and
  \<open>rebuild_and_store\<close> is the rest of the function body, from the healthy ratio on.
  Once the reader is open, its deferred close adds its error to whatever is returned.
\<close>

definition rebuild_and_store ::
  "Repairer \<Rightarrow> Satellite \<Rightarrow> Path \<Rightarrow> Pointer \<Rightarrow> RemoteSegment \<Rightarrow> RedundancyScheme
     \<Rightarrow> RedundancyStrategy \<Rightarrow> int32 list \<Rightarrow> (RepairError option \<times> Satellite) go" where
  "rebuild_and_store repairer db1 path pointer remote rs redundancy missingPieces =
     (let pieceSize = CalcPieceSize repairer (SegmentSize pointer) redundancy;
          expiration = ExpirationDate pointer;
          pieces = GetRemotePieces (Remote pointer);
          numHealthy = int (length pieces) - int (length missingPieces);
          db2 = mark [FloatVal ''healthy_ratio_before_repair'' (healthy_ratio numHealthy (Total rs))] db1;
          excludeNodeIDs = map NodeId pieces;
          healthyPieces = healthy_of missingPieces pieces in
      case segments_createBucketID path of
        Inl err \<Rightarrow> Ret (Some err, db2)
      | Inr bucketID \<Rightarrow>
     (case CreateGetRepairOrderLimits repairer bucketID pointer healthyPieces of
        Inl err \<Rightarrow> Ret (Some (Wrap err), db2)
      | Inr getOrderLimits \<Rightarrow>
     (case FindStorageNodes repairer
             \<lparr>RequestedCount = TotalCount redundancy - int (length healthyPieces),
              FreeBandwidth = pieceSize, FreeDisk = pieceSize,
              ExcludedNodes = excludeNodeIDs\<rparr> of
        Inl err \<Rightarrow> Ret (Some (Wrap err), db2)
      | Inr newNodes \<Rightarrow>
     (case CreatePutRepairOrderLimits repairer bucketID pointer getOrderLimits newNodes of
        Inl err \<Rightarrow> Ret (Some (Wrap err), db2)
      | Inr putLimits \<Rightarrow>
     (case ec_Get repairer getOrderLimits redundancy (SegmentSize pointer) of
        Inl err \<Rightarrow> Ret (Some (Wrap err), db2)
      | Inr rr \<Rightarrow>
     (case Range repairer rr of
        Inl err \<Rightarrow> Ret (Some (Wrap err), db2)
      | Inr r \<Rightarrow>
     (case ec_Repair repairer putLimits redundancy r expiration path of
        Inl err \<Rightarrow> Ret (Combine (Some (Wrap err)) (Close repairer r), db2)
      | Inr (successfulNodes, hashes) \<Rightarrow>
     (case uploaded 0 successfulNodes hashes of
        Panic \<Rightarrow> Panic
      | Ret newPieces \<Rightarrow>
     (let healthyPieces' = healthyPieces @ newPieces;
          pointer' = pointer\<lparr>Remote := Some (remote\<lparr>RemotePieces := appended healthyPieces'\<rparr>)\<rparr>;
          len = (word_of_int (int (length healthyPieces')) :: int32);
          db3 = mark [Meter (outcome_meter len rs),
                      FloatVal ''healthy_ratio_after_repair'' (healthy_ratio (int (length healthyPieces')) (Total rs))] db2 in
      case metainfo_Put db3 path pointer' of
        (err, db4) \<Rightarrow> Ret (Combine (map_option Unwrapped err) (Close repairer r), db4))))))))))"

definition Repair :: "Repairer \<Rightarrow> Satellite \<Rightarrow> Path \<Rightarrow> (RepairError option \<times> Satellite) go" where
  "Repair repairer db path =
     (case metainfo_Get db path of
        Inl err \<Rightarrow> Ret (Some (Wrap err), db)
      | Inr pointer \<Rightarrow>
     if Type pointer \<noteq> REMOTE then Ret (Some (CannotRepairInline path), db)
     else
     (let db1 = mark [Meter ''repair_attempts'',
                      IntVal ''repair_segment_size'' (sint (SegmentSize pointer))] db in
      case NewRedundancyStrategyFromProto repairer (GetRedundancy (Remote pointer)) of
        Inl err \<Rightarrow> Ret (Some (Wrap err), db1)
      | Inr redundancy \<Rightarrow>
     (let pieces = GetRemotePieces (Remote pointer) in
      case GetMissingPieces repairer pieces of
        Inl err \<Rightarrow> Ret (Some (ErrorGettingMissingPieces err), db1)
      | Inr missingPieces \<Rightarrow>
     (let numHealthy = int (length pieces) - int (length missingPieces) in
      case Remote pointer of
        None \<Rightarrow> Panic
      | Some remote \<Rightarrow>
     (case Redundancy remote of
        None \<Rightarrow> Panic
      | Some rs \<Rightarrow>
     if sint (word_of_int numHealthy :: int32) < sint (MinReq rs)
     then Ret (Some (CannotBeRepaired path), mark [Meter ''repair_nodes_unavailable''] db1)
     else if sint (word_of_int numHealthy :: int32) > sint (RepairThreshold rs)
     then Ret (Some (AboveRepairThreshold path numHealthy (sint (RepairThreshold rs))),
               mark [Meter ''repair_unnecessary''] db1)
     else rebuild_and_store repairer db1 path pointer remote rs redundancy missingPieces)))))"

section \<open>pkg/audit: the verifier\<close>

record Stripe =
  Index :: int64
  StripeSegment :: "Pointer option"
  SegmentPath :: Path

record Share =
  ShareError :: "error option"
  SharePieceNum :: int
  Data :: bytes

record PendingAudit =
  NodeID :: NodeID
  PieceID :: PieceID
  StripeIndex :: int64
  ShareSize :: int32
  ExpectedShareHash :: bytes

record Report =
  Successes :: "NodeID list"
  Fails :: "NodeID list"
  Offlines :: "NodeID list"
  PendingAudits :: "PendingAudit option list"

text \<open>A share of the erasure-code library (\<open>infectious.Share\<close>) and its codec.\<close>

record FecShare =
  Number :: int
  FecData :: bytes

record FEC =
  Required :: int
  FecTotal :: int

text \<open>
  The verifier's collaborators: the orders service, the transport and piece-store
  clients that \<open>GetShare\<close> drives, the containment database, the erasure-code library
  and the hash. None of them is part of this package.
\<close>

record Verifier =
  CreateAuditOrderLimits ::
    "string \<Rightarrow> Pointer option \<Rightarrow> NodeID set \<Rightarrow> error + AddressedOrderLimit option list"
  CreateAuditOrderLimit ::
    "string \<Rightarrow> NodeID \<Rightarrow> PieceID \<Rightarrow> int32 \<Rightarrow> error + AddressedOrderLimit"
  DialNode :: "NodeID \<Rightarrow> string \<Rightarrow> error + nat"
  Download :: "nat \<Rightarrow> OrderLimit2 \<Rightarrow> int64 \<Rightarrow> int64 \<Rightarrow> error + nat"
  ReadFull :: "nat \<Rightarrow> int32 \<Rightarrow> error + bytes"
  CloseDownloader :: "nat \<Rightarrow> error option"
  containment_Get :: "NodeID \<Rightarrow> error + PendingAudit"
  NewFEC :: "int \<Rightarrow> int \<Rightarrow> error + FEC"
  Correct :: "FEC \<Rightarrow> FecShare list \<Rightarrow> error + FecShare list"
  Rebuild :: "FEC \<Rightarrow> FecShare list \<Rightarrow> error + FecShare list"
  EncodeSingle :: "FEC \<Rightarrow> bytes \<Rightarrow> int \<Rightarrow> error + bytes"
  SHA256Hash :: "bytes \<Rightarrow> bytes"

text \<open>The error classes the verifier tests for.\<close>

definition transport_Error :: string where
  "transport_Error = ''transport error''"

definition ContainError :: string where
  "ContainError = ''containment error''"

definition ErrContainedNotFound :: string where
  "ErrContainedNotFound = ''pending audit not found''"

definition ErrNodeOffline :: string where
  "ErrNodeOffline = ''node is offline''"

definition ErrNotEnoughShares :: string where
  "ErrNotEnoughShares = ''not enough shares for successful audit''"

definition audit_Error :: string where
  "audit_Error = ''audit error''"

text \<open>
  \<open>errs.Combine\<close> on two errors: nothing, the one there is, or a group of both (a group
  is of no class itself).
\<close>

fun errs_Combine :: "error option \<Rightarrow> error option \<Rightarrow> error option" where
  "errs_Combine e None = e"
| "errs_Combine None (Some c) = Some c"
| "errs_Combine (Some e) (Some c) = Some (Error [] (ErrorText e @ ''; '' @ ErrorText c))"

definition Class_Wrap :: "string \<Rightarrow> error \<Rightarrow> error" where
  "Class_Wrap c e =
     (case e of
        DeadlineExceeded \<Rightarrow> Error [c] (c @ '': '' @ ErrorText e)
      | Error cs msg \<Rightarrow> Error (c # cs) (c @ '': '' @ msg))"

text \<open>
  \<open>GetShare\<close>: dial the node, open the download, read one share. The time limit only
  decides which error the collaborators answer with. The deferred close of the
  downloader adds its error to the one returned.
\<close>

definition GetShare ::
  "Verifier \<Rightarrow> AddressedOrderLimit \<Rightarrow> int64 \<Rightarrow> int32 \<Rightarrow> int \<Rightarrow> Share \<times> error option" where
  "GetShare verifier limit stripeIndex shareSize pieceNum =
     (let storageNodeID = StorageNodeId (Limit limit) in
      case DialNode verifier storageNodeID (StorageNodeAddress limit) of
        Inl err \<Rightarrow> (\<lparr>ShareError = None, SharePieceNum = 0, Data = []\<rparr>, Some err)
      | Inr conn \<Rightarrow>
          (let offset = signed shareSize * stripeIndex in
           case Download verifier conn (Limit limit) offset (signed shareSize) of
             Inl err \<Rightarrow> (\<lparr>ShareError = None, SharePieceNum = 0, Data = []\<rparr>, Some err)
           | Inr downloader \<Rightarrow>
               (case ReadFull verifier downloader shareSize of
                  Inl err \<Rightarrow>
                    (\<lparr>ShareError = None, SharePieceNum = 0, Data = []\<rparr>,
                     errs_Combine (Some err) (CloseDownloader verifier downloader))
                | Inr buf \<Rightarrow>
                    (\<lparr>ShareError = None, SharePieceNum = pieceNum, Data = buf\<rparr>,
                     errs_Combine None (CloseDownloader verifier downloader)))))"

text \<open>
  \<open>DownloadShares\<close>. The two Go maps are keyed by the loop index of a non-nil limit, so
  they are association lists here, in index order; Go iterates a map in no fixed order,
  and nothing below depends on the order.
\<close>

fun DownloadShares_from ::
  "Verifier \<Rightarrow> int64 \<Rightarrow> int32 \<Rightarrow> int \<Rightarrow> AddressedOrderLimit option list
     \<Rightarrow> (int \<times> Share) list \<times> (int \<times> NodeID) list" where
  "DownloadShares_from verifier stripeIndex shareSize i [] = ([], [])"
| "DownloadShares_from verifier stripeIndex shareSize i (None # limits) =
     DownloadShares_from verifier stripeIndex shareSize (i + 1) limits"
| "DownloadShares_from verifier stripeIndex shareSize i (Some limit # limits) =
     (let share = (case GetShare verifier limit stripeIndex shareSize i of
                     (s, Some err) \<Rightarrow> \<lparr>ShareError = Some err, SharePieceNum = i, Data = []\<rparr>
                   | (s, None) \<Rightarrow> s) in
      case DownloadShares_from verifier stripeIndex shareSize (i + 1) limits of
        (shares, nodes) \<Rightarrow>
          ((SharePieceNum share, share) # shares,
           (SharePieceNum share, StorageNodeId (Limit limit)) # nodes))"

definition DownloadShares ::
  "Verifier \<Rightarrow> AddressedOrderLimit option list \<Rightarrow> int64 \<Rightarrow> int32
     \<Rightarrow> (int \<times> Share) list \<times> (int \<times> NodeID) list" where
  "DownloadShares verifier limits stripeIndex shareSize =
     DownloadShares_from verifier stripeIndex shareSize 0 limits"

text \<open>Reading a Go map at a key it does not hold gives the zero value.\<close>

definition node_at :: "(int \<times> NodeID) list \<Rightarrow> int \<Rightarrow> NodeID" where
  "node_at nodes k = (case map_of nodes k of None \<Rightarrow> replicate 32 0 | Some n \<Rightarrow> n)"

definition share_at :: "(int \<times> Share) list \<Rightarrow> int \<Rightarrow> Share" where
  "share_at shares k =
     (case map_of shares k of
        None \<Rightarrow> \<lparr>ShareError = None, SharePieceNum = 0, Data = []\<rparr>
      | Some s \<Rightarrow> s)"

text \<open>
  The classification loop of \<open>Verify\<close>: the offline nodes, the contained nodes and the
  shares to audit.
\<close>

definition is_contained :: "error \<Rightarrow> bool" where
  "is_contained err =
     (err = DeadlineExceeded \<or> \<not> Has transport_Error err \<or> Has ContainError err)"

fun classify ::
  "(int \<times> NodeID) list \<Rightarrow> (int \<times> Share) list
     \<Rightarrow> NodeID list \<times> (int \<times> NodeID) list \<times> (int \<times> Share) list" where
  "classify nodes [] = ([], [], [])"
| "classify nodes ((pieceNum, share) # shares) =
     (case classify nodes shares of
        (offlineNodes, containedNodes, sharesToAudit) \<Rightarrow>
          (case ShareError share of
             Some err \<Rightarrow>
               if is_contained err
               then (offlineNodes, (pieceNum, node_at nodes pieceNum) # containedNodes, sharesToAudit)
               else (node_at nodes pieceNum # offlineNodes, containedNodes, sharesToAudit)
           | None \<Rightarrow> (offlineNodes, containedNodes, (pieceNum, share) # sharesToAudit)))"

definition makeCopies :: "(int \<times> Share) list \<Rightarrow> FecShare list" where
  "makeCopies originals =
     map (\<lambda>(k, original). \<lparr>Number = SharePieceNum original, FecData = Data original\<rparr>) originals"

definition auditShares ::
  "Verifier \<Rightarrow> int \<Rightarrow> int \<Rightarrow> (int \<times> Share) list \<Rightarrow> error + (int list \<times> FecShare list)" where
  "auditShares verifier required totalCount originals =
     (case NewFEC verifier required totalCount of
        Inl err \<Rightarrow> Inl err
      | Inr f \<Rightarrow>
          (case Correct verifier f (makeCopies originals) of
             Inl err \<Rightarrow> Inl err
           | Inr copies \<Rightarrow>
               Inr (map Number
                      (filter (\<lambda>share. Data (share_at originals (Number share)) \<noteq> FecData share) copies),
                    copies)))"

definition getSuccessNodes ::
  "(int \<times> NodeID) list \<Rightarrow> NodeID list \<Rightarrow> NodeID list \<Rightarrow> (int \<times> NodeID) list \<Rightarrow> NodeID list" where
  "getSuccessNodes nodes failedNodes offlineNodes containedNodes =
     (let fails = set failedNodes \<union> set offlineNodes \<union> snd ` set containedNodes in
      filter (\<lambda>node. node \<notin> fails) (map snd nodes))"

definition audit_createBucketID :: "Path \<Rightarrow> string" where
  "audit_createBucketID path =
     (let comps = SplitPath path in
      if length comps < 3 then [] else JoinPaths [comps ! 0, comps ! 2])"

text \<open>
  \<open>rebuildStripe\<close>: a zeroed buffer of \<open>Required * shareSize\<close> bytes, into which every
  rebuilt share is copied at its offset. A negative size and an offset past the end
  panic.
\<close>

definition copy_at :: "bytes \<Rightarrow> int \<Rightarrow> bytes \<Rightarrow> bytes go" where
  "copy_at stripe off src =
     (if off < 0 \<or> int (length stripe) < off then Panic
      else
        (let n = min (length stripe - nat off) (length src) in
         Ret (take (nat off) stripe @ take n src @ drop (nat off + n) stripe)))"

fun copy_shares :: "int \<Rightarrow> bytes \<Rightarrow> FecShare list \<Rightarrow> bytes go" where
  "copy_shares shareSize stripe [] = Ret stripe"
| "copy_shares shareSize stripe (share # shares) =
     (case copy_at stripe (Number share * shareSize) (FecData share) of
        Panic \<Rightarrow> Panic
      | Ret stripe' \<Rightarrow> copy_shares shareSize stripe' shares)"

definition rebuildStripe :: "Verifier \<Rightarrow> FEC \<Rightarrow> FecShare list \<Rightarrow> int \<Rightarrow> (error + bytes) go" where
  "rebuildStripe verifier fec corrected shareSize =
     (if Required fec * shareSize < 0 then Panic
      else
        (case Rebuild verifier fec corrected of
           Inl err \<Rightarrow> Ret (Inl err)
         | Inr rebuilt \<Rightarrow>
             (case copy_shares shareSize (replicate (nat (Required fec * shareSize)) 0) rebuilt of
                Panic \<Rightarrow> Panic
              | Ret stripe \<Rightarrow> Ret (Inr stripe))))"

definition GetRemote :: "Pointer option \<Rightarrow> RemoteSegment option" where
  "GetRemote p = (case p of None \<Rightarrow> None | Some ptr \<Rightarrow> Remote ptr)"

text \<open>
  The loop of \<open>createPendingAudits\<close> over the contained nodes. A negative share size
  panics in \<open>make\<close>, and so does reading the root piece ID of a missing remote segment.
\<close>

fun pending_for ::
  "Verifier \<Rightarrow> FEC \<Rightarrow> bytes \<Rightarrow> Stripe \<Rightarrow> int32 \<Rightarrow> (int \<times> NodeID) list
     \<Rightarrow> (error + PendingAudit option list) go" where
  "pending_for verifier fec stripeData stripe shareSize [] = Ret (Inr [])"
| "pending_for verifier fec stripeData stripe shareSize ((pieceNum, nodeID) # containedNodes) =
     (if sint shareSize < 0 then Panic
      else
        (case EncodeSingle verifier fec stripeData pieceNum of
           Inl err \<Rightarrow> Ret (Inl (Class_Wrap audit_Error err))
         | Inr share \<Rightarrow>
             (case GetRemote (StripeSegment stripe) of
                None \<Rightarrow> Panic
              | Some remote \<Rightarrow>
                  (case pending_for verifier fec stripeData stripe shareSize containedNodes of
                     Panic \<Rightarrow> Panic
                   | Ret (Inl err) \<Rightarrow> Ret (Inl err)
                   | Ret (Inr pendingAudits) \<Rightarrow>
                       Ret (Inr (Some \<lparr>NodeID = nodeID,
                                       PieceID = RootPieceId remote,
                                       StripeIndex = Index stripe,
                                       ShareSize = shareSize,
                                       ExpectedShareHash = SHA256Hash verifier share\<rparr>
                                 # pendingAudits))))))"

definition createPendingAudits ::
  "Verifier \<Rightarrow> (int \<times> NodeID) list \<Rightarrow> FecShare list \<Rightarrow> Stripe
     \<Rightarrow> (error + PendingAudit option list) go" where
  "createPendingAudits verifier containedNodes correctedShares stripe =
     (if length containedNodes > 0 then Ret (Inr [])
      else
        (let redundancy = GetRedundancy (GetRemote (StripeSegment stripe));
             required = sint (GetMinReq redundancy);
             totalCount = sint (GetTotal redundancy);
             shareSize = GetErasureShareSize redundancy in
         case NewFEC verifier required totalCount of
           Inl err \<Rightarrow> Ret (Inl (Class_Wrap audit_Error err))
         | Inr fec \<Rightarrow>
             (case rebuildStripe verifier fec correctedShares (sint shareSize) of
                Panic \<Rightarrow> Panic
              | Ret (Inl err) \<Rightarrow> Ret (Inl (Class_Wrap audit_Error err))
              | Ret (Inr stripeData) \<Rightarrow>
                  pending_for verifier fec stripeData stripe shareSize containedNodes)))"

definition only_offlines :: "NodeID list \<Rightarrow> Report" where
  "only_offlines offlineNodes =
     \<lparr>Successes = [], Fails = [], Offlines = offlineNodes, PendingAudits = []\<rparr>"

definition Verify :: "Verifier \<Rightarrow> Stripe \<Rightarrow> NodeID set \<Rightarrow> (Report option \<times> error option) go" where
  "Verify verifier stripe skip =
     (let pointer = StripeSegment stripe;
          shareSize = GetErasureShareSize (GetRedundancy (GetRemote pointer));
          bucketID = audit_createBucketID (SegmentPath stripe) in
      case CreateAuditOrderLimits verifier bucketID pointer skip of
        Inl err \<Rightarrow> Ret (None, Some err)
      | Inr orderLimits \<Rightarrow>
     (case DownloadShares verifier orderLimits (Index stripe) shareSize of
        (shares, nodes) \<Rightarrow>
     (case classify nodes shares of
        (offlineNodes, containedNodes, sharesToAudit) \<Rightarrow>
     (case GetRemote pointer of
        None \<Rightarrow> Panic
      | Some remote \<Rightarrow>
     (let required = sint (GetMinReq (Redundancy remote));
          totalCount = sint (GetTotal (Redundancy remote)) in
      if int (length sharesToAudit) < required
      then Ret (Some (only_offlines offlineNodes),
                Some (Class_New ErrNotEnoughShares
                        (''got '' @ FormatInt (int (length sharesToAudit))
                         @ '', required '' @ FormatInt required)))
      else
     (case auditShares verifier required totalCount sharesToAudit of
        Inl err \<Rightarrow> Ret (Some (only_offlines offlineNodes), Some err)
      | Inr (pieceNums, correctedShares) \<Rightarrow>
     (let failedNodes = map (node_at nodes) pieceNums;
          successNodes = getSuccessNodes nodes failedNodes offlineNodes containedNodes in
      case createPendingAudits verifier containedNodes correctedShares stripe of
        Panic \<Rightarrow> Panic
      | Ret (Inl err) \<Rightarrow>
          Ret (Some \<lparr>Successes = successNodes, Fails = failedNodes,
                     Offlines = offlineNodes, PendingAudits = []\<rparr>, Some err)
      | Ret (Inr pendingAudits) \<Rightarrow>
          Ret (Some \<lparr>Successes = successNodes, Fails = failedNodes,
                     Offlines = offlineNodes, PendingAudits = pendingAudits\<rparr>, None))))))))"

subsection \<open>Reverify\<close>

datatype Status = Skipped | Success | Offline | Failed | Contained | Erred

record Result =
  res_nodeID :: NodeID
  res_status :: Status
  res_pendingAudit :: "PendingAudit option"
  res_err :: "error option"

text \<open>
  What one piece sends on the channel: the loop body of \<open>Reverify\<close> and the goroutine
  it starts. A field the Go literal leaves out is the zero value.
\<close>

definition reverify_piece :: "Verifier \<Rightarrow> Stripe \<Rightarrow> RemotePiece \<Rightarrow> Result" where
  "reverify_piece verifier stripe piece =
     (case containment_Get verifier (NodeId piece) of
        Inl err \<Rightarrow>
          if Has ErrContainedNotFound err
          then \<lparr>res_nodeID = NodeId piece, res_status = Skipped, res_pendingAudit = None, res_err = None\<rparr>
          else \<lparr>res_nodeID = NodeId piece, res_status = Erred, res_pendingAudit = None, res_err = Some err\<rparr>
      | Inr pending \<Rightarrow>
          (case CreateAuditOrderLimit verifier (audit_createBucketID (SegmentPath stripe))
                  (NodeID pending) (PieceID pending) (ShareSize pending) of
             Inl err \<Rightarrow>
               if Has ErrNodeOffline err
               then \<lparr>res_nodeID = NodeId piece, res_status = Offline, res_pendingAudit = None, res_err = None\<rparr>
               else \<lparr>res_nodeID = NodeId piece, res_status = Erred, res_pendingAudit = None, res_err = Some err\<rparr>
           | Inr limit \<Rightarrow>
               (case GetShare verifier limit (StripeIndex pending) (ShareSize pending)
                       (sint (PieceNum piece)) of
                  (share, Some err) \<Rightarrow>
                    if err = DeadlineExceeded \<or> \<not> Has transport_Error err
                    then \<lparr>res_nodeID = NodeId piece, res_status = Contained, res_pendingAudit = None, res_err = None\<rparr>
                    else \<lparr>res_nodeID = NodeId piece, res_status = Offline, res_pendingAudit = None, res_err = None\<rparr>
                | (share, None) \<Rightarrow>
                    (let downloadedHash = SHA256Hash verifier (Data share) in
                     if downloadedHash = ExpectedShareHash pending
                     then \<lparr>res_nodeID = NodeId piece, res_status = Success, res_pendingAudit = None, res_err = None\<rparr>
                     else \<lparr>res_nodeID = NodeId piece, res_status = Failed, res_pendingAudit = None, res_err = None\<rparr>))))"

text \<open>
  The receiving loop, over the results in the order they arrive. The goroutines send in
  no fixed order; the results are taken in piece order here, and the lists of the report
  are read as sets below.
\<close>

fun collect :: "Result list \<Rightarrow> Report \<times> error option" where
  "collect [] = (\<lparr>Successes = [], Fails = [], Offlines = [], PendingAudits = []\<rparr>, None)"
| "collect (r # rs) =
     (case collect rs of
        (report, err) \<Rightarrow>
          (case res_status r of
             Success \<Rightarrow> (report\<lparr>Successes := res_nodeID r # Successes report\<rparr>, err)
           | Offline \<Rightarrow> (report\<lparr>Offlines := res_nodeID r # Offlines report\<rparr>, err)
           | Failed \<Rightarrow> (report\<lparr>Fails := res_nodeID r # Fails report\<rparr>, err)
           | Contained \<Rightarrow> (report\<lparr>PendingAudits := res_pendingAudit r # PendingAudits report\<rparr>, err)
           | Erred \<Rightarrow> (report, errs_Combine (res_err r) err)
           | Skipped \<Rightarrow> (report, err)))"

definition Reverify :: "Verifier \<Rightarrow> Stripe \<Rightarrow> Report \<times> error option" where
  "Reverify verifier stripe =
     (let pieces = GetRemotePieces (GetRemote (StripeSegment stripe)) in
      collect (map (reverify_piece verifier stripe) pieces))"

text \<open>The node IDs a report's pending audits carry; a nil entry carries none.\<close>

definition pending_nodes :: "Report \<Rightarrow> NodeID set" where
  "pending_nodes report = {n. \<exists>p. Some p \<in> set (PendingAudits report) \<and> NodeID p = n}"

section \<open>pkg/storage/segments: CalcNeededNodes\<close>



section \<open>Example inputs\<close>

text \<open>
  A segment under the scheme \<open>(k, m, o, n) = (2, 3, o, n)\<close> that holds the pieces of the
  given numbers, piece \<open>i\<close> on node \<open>[i]\<close>; a satellite that stores it; and a repairer
  whose overlay reports the given piece numbers missing and whose uploads reach the given
  nodes.
\<close>

definition example_scheme :: "int32 \<Rightarrow> int32 \<Rightarrow> RedundancyScheme" where
  "example_scheme opt n =
     \<lparr>MinReq = 2, Total = n, RepairThreshold = 3, SuccessThreshold = opt, ErasureShareSize = 256\<rparr>"

definition example_piece :: "nat \<Rightarrow> RemotePiece" where
  "example_piece i = \<lparr>PieceNum = word_of_int (int i), NodeId = [word_of_int (int i)], Hash = None\<rparr>"

definition example_remote :: "RedundancyScheme \<Rightarrow> nat list \<Rightarrow> RemoteSegment" where
  "example_remote rs nums =
     \<lparr>Redundancy = Some rs, RootPieceId = [7], RemotePieces = Some (map example_piece nums)\<rparr>"

definition example_pointer :: "RedundancyScheme \<Rightarrow> nat list \<Rightarrow> Pointer" where
  "example_pointer rs nums =
     \<lparr>Type = REMOTE, InlineSegment = None, Remote = Some (example_remote rs nums),
      SegmentSize = 1024, ExpirationDate = 0, Metadata = []\<rparr>"

definition example_path :: Path where
  "example_path = ''proj/l/bucket/object''"

definition example_db :: "Pointer \<Rightarrow> Satellite" where
  "example_db ptr =
     \<lparr>pointers = [example_path \<mapsto> ptr],
      PutFails = (\<lambda>path p. None), GetFails = (\<lambda>path. None), usage = [], mon = []\<rparr>"

definition example_repairer :: "int32 list \<Rightarrow> Node option list \<Rightarrow> Repairer" where
  "example_repairer missingPieces successfulNodes =
     \<lparr>NewRedundancyStrategyFromProto =
        (\<lambda>rs. Inr \<lparr>TotalCount = sint (GetTotal rs)\<rparr>),
      CalcPieceSize = (\<lambda>size redundancy. 512),
      GetMissingPieces = (\<lambda>pieces. Inr missingPieces),
      CreateGetRepairOrderLimits = (\<lambda>bucketID pointer pieces. Inr []),
      FindStorageNodes = (\<lambda>request. Inr []),
      CreatePutRepairOrderLimits = (\<lambda>bucketID pointer limits nodes. Inr []),
      ec_Get = (\<lambda>limits redundancy size. Inr []),
      Range = (\<lambda>rr. Inr rr),
      Close = (\<lambda>r. None),
      ec_Repair = (\<lambda>limits redundancy r expiration path.
                     Inr (successfulNodes, replicate (length successfulNodes) None))\<rparr>"

definition new_node :: "nat \<Rightarrow> Node option" where
  "new_node i = Some \<lparr>Id = [word_of_int (int i)], Address = ''10.0.0.1:7777''\<rparr>"

text \<open>
  The state \<open>rebuild_and_store\<close> leaves when the pointer is stored: the two ratios and the
  outcome meter marked, and the pointer stored with the pieces \<open>ps\<close>.
\<close>

definition stored_by ::
  "Satellite \<Rightarrow> Path \<Rightarrow> Pointer \<Rightarrow> RemoteSegment \<Rightarrow> RedundancyScheme \<Rightarrow> RemotePiece list \<Rightarrow> int \<Rightarrow> Satellite" where
  "stored_by db1 path pointer remote rs ps numHealthy =
     (mark [Meter (outcome_meter (word_of_int (int (length ps))) rs),
            FloatVal ''healthy_ratio_after_repair'' (healthy_ratio (int (length ps)) (Total rs))]
        (mark [FloatVal ''healthy_ratio_before_repair'' (healthy_ratio numHealthy (Total rs))] db1))
     \<lparr>pointers := (pointers db1)(path \<mapsto> pointer\<lparr>Remote := Some (remote\<lparr>RemotePieces := appended ps\<rparr>)\<rparr>)\<rparr>"

text \<open>
  The commit of \<open>TestCommitSegment\<close>: six order limits under the scheme
  \<open>(k, 2, 4, 6)\<close>, an endpoint whose collaborators accept everything, and a pointer
  that holds the pieces of the given numbers.
\<close>

definition commit_endpoint :: Endpoint where
  "commit_endpoint =
     \<lparr>GetAPIKey = Some ''key'',
      ParseAPIKey = (\<lambda>keyData. Inr keyData),
      Head = (\<lambda>key. []),
      GetByHead = (\<lambda>h. Inr \<lparr>ProjectID = ''proj'', Secret = []\<rparr>),
      Check = (\<lambda>key secret action. None),
      VerifyOrderLimitSignature = (\<lambda>limit. None),
      Derive = (\<lambda>root node. root @ node),
      UpdatePutInlineOrder = (\<lambda>bucketID n. None)\<rparr>"

definition test_scheme :: "int32 \<Rightarrow> RedundancyScheme" where
  "test_scheme k =
     \<lparr>MinReq = k, Total = 6, RepairThreshold = 2, SuccessThreshold = 4, ErasureShareSize = 10\<rparr>"

definition test_limit :: "nat \<Rightarrow> OrderLimit2 option" where
  "test_limit i = Some \<lparr>PieceId = [7, word_of_int (int i)], StorageNodeId = [word_of_int (int i)]\<rparr>"

definition test_pointer :: "int32 \<Rightarrow> nat list \<Rightarrow> Pointer" where
  "test_pointer k nums =
     \<lparr>Type = REMOTE, InlineSegment = None,
      Remote = Some \<lparr>Redundancy = Some (test_scheme k), RootPieceId = [7],
                     RemotePieces = Some (map example_piece nums)\<rparr>,
      SegmentSize = 1000, ExpirationDate = 0, Metadata = []\<rparr>"

definition test_request :: "int32 \<Rightarrow> nat list \<Rightarrow> SegmentCommitRequest" where
  "test_request k nums =
     \<lparr>Bucket = ''bucket'', Path = ''path'', Segment = - 1,
      Pointer = Some (test_pointer k nums),
      OriginalLimits = map test_limit [0, 1, 2, 3, 4, 5]\<rparr>"

definition empty_db :: Satellite where
  "empty_db =
     \<lparr>pointers = Map.empty, PutFails = (\<lambda>path ptr. None), GetFails = (\<lambda>path. None),
      usage = [], mon = []\<rparr>"

definition example_uploads :: "Node option list" where
  "example_uploads = [None, None, None, new_node 13, new_node 14, new_node 15]"

definition example_new_pieces :: "RemotePiece list" where
  "example_new_pieces =
     [\<lparr>PieceNum = 3, NodeId = [13], Hash = None\<rparr>, \<lparr>PieceNum = 4, NodeId = [14], Hash = None\<rparr>,
      \<lparr>PieceNum = 5, NodeId = [15], Hash = None\<rparr>]"

definition replaced_piece :: RemotePiece where
  "replaced_piece = \<lparr>PieceNum = 2, NodeId = [12], Hash = None\<rparr>"

definition mixed_pointer :: Pointer where
  "mixed_pointer = (test_pointer 0 [0, 1, 2])\<lparr>InlineSegment := Some [1]\<rparr>"

definition mixed_request :: SegmentCommitRequest where
  "mixed_request = (test_request 0 [0, 1, 2])\<lparr>Pointer := Some mixed_pointer\<rparr>"

section \<open>Verified properties\<close>

subsection \<open>Conversions\<close>

lemma int32_of_int:
  "- (2 ^ 31) \<le> n \<Longrightarrow> n < 2 ^ 31 \<Longrightarrow> sint (word_of_int n :: int32) = n"
  by (simp add: signed_of_int signed_take_bit_int_eq_self)

lemma int32_of_length:
  "length xs < 2 ^ 31 \<Longrightarrow> sint (word_of_int (int (length xs)) :: int32) = int (length xs)"
  by (rule int32_of_int) auto

subsection \<open>Repair: the threshold checks\<close>

lemma Combine_Some:
  "Combine (Some e) c = Some e \<or> (\<exists>x. Combine (Some e) c = Some (Combined e x))"
  by (cases c) simp_all

lemma Combine_None_result:
  "Combine None c = None \<or> (\<exists>x. Combine None c = Some (Unwrapped x))"
  by (cases c) simp_all

lemma outcome_meter_names:
  "outcome_meter len rs \<noteq> ''repair_nodes_unavailable'' \<and>
   outcome_meter len rs \<noteq> ''repair_unnecessary''"
  by (simp add: outcome_meter_def)

text \<open>Whatever the rest of the repair returns, it first records the healthy ratio.\<close>

lemma rebuild_and_store_result:
  assumes "rebuild_and_store repairer db1 path pointer remote rs redundancy missingPieces = Ret (e, db')"
  shows "\<exists>es. mon db' = mon db1 @
              FloatVal ''healthy_ratio_before_repair''
                (healthy_ratio (int (length (GetRemotePieces (Remote pointer))) - int (length missingPieces))
                   (Total rs)) # es \<and>
           Meter ''repair_nodes_unavailable'' \<notin> set es \<and> Meter ''repair_unnecessary'' \<notin> set es"
    and "e \<noteq> Some (CannotBeRepaired path')"
    and "e \<noteq> Some (AboveRepairThreshold path' n t)"
proof -
  let ?b = "FloatVal ''healthy_ratio_before_repair''
                (healthy_ratio (int (length (GetRemotePieces (Remote pointer))) - int (length missingPieces))
                   (Total rs))"
  have c1: "Combine (Some (Wrap x)) c \<noteq> Some (CannotBeRepaired path')"
     "Combine (Some (Wrap x)) c \<noteq> Some (AboveRepairThreshold path' n t)" for x c
    using Combine_Some [of "Wrap x" c] by auto
  have c2: "Combine (Some (Unwrapped x)) c \<noteq> Some (CannotBeRepaired path')"
     "Combine (Some (Unwrapped x)) c \<noteq> Some (AboveRepairThreshold path' n t)"
     "Combine None c \<noteq> Some (CannotBeRepaired path')"
     "Combine None c \<noteq> Some (AboveRepairThreshold path' n t)" for x c
    using Combine_Some [of "Unwrapped x" c] Combine_None_result [of c]
    by auto
  have nb: "segments_createBucketID path \<noteq> Inl (CannotBeRepaired path')"
     "segments_createBucketID path \<noteq> Inl (AboveRepairThreshold path' n t)"
    by (auto simp: segments_createBucketID_def Let_def)
  from assms have
    "(mon db' = mon db1 @ [?b] \<or>
      (\<exists>len k. mon db' = mon db1 @ [?b, Meter (outcome_meter len rs),
          FloatVal ''healthy_ratio_after_repair'' (healthy_ratio k (Total rs))])) \<and>
     e \<noteq> Some (CannotBeRepaired path') \<and> e \<noteq> Some (AboveRepairThreshold path' n t)"
    unfolding rebuild_and_store_def Let_def
    using c1 c2 nb
    by (auto simp: metainfo_Put_def mark_def split: sum.splits go.splits prod.splits option.splits)
  then show "\<exists>es. mon db' = mon db1 @ ?b # es \<and>
           Meter ''repair_nodes_unavailable'' \<notin> set es \<and> Meter ''repair_unnecessary'' \<notin> set es"
    and "e \<noteq> Some (CannotBeRepaired path')"
    and "e \<noteq> Some (AboveRepairThreshold path' n t)"
    by (auto simp: outcome_meter_def)
qed

lemma rebuild_and_store_steps:
  assumes "segments_createBucketID path = Inr bucketID"
    and "CreateGetRepairOrderLimits repairer bucketID pointer
           (healthy_of missingPieces (GetRemotePieces (Remote pointer))) = Inr getOrderLimits"
    and "FindStorageNodes repairer
           \<lparr>RequestedCount = TotalCount redundancy
              - int (length (healthy_of missingPieces (GetRemotePieces (Remote pointer)))),
            FreeBandwidth = CalcPieceSize repairer (SegmentSize pointer) redundancy,
            FreeDisk = CalcPieceSize repairer (SegmentSize pointer) redundancy,
            ExcludedNodes = map NodeId (GetRemotePieces (Remote pointer))\<rparr> = Inr newNodes"
    and "CreatePutRepairOrderLimits repairer bucketID pointer getOrderLimits newNodes = Inr putLimits"
    and "ec_Get repairer getOrderLimits redundancy (SegmentSize pointer) = Inr rr"
    and "Range repairer rr = Inr r"
    and "ec_Repair repairer putLimits redundancy r (ExpirationDate pointer) path = Inr (nodes, hashes)"
    and "uploaded 0 nodes hashes = Ret newPieces"
    and "PutFails db1 path
           (pointer\<lparr>Remote := Some (remote\<lparr>RemotePieces :=
              appended (healthy_of missingPieces (GetRemotePieces (Remote pointer)) @ newPieces)\<rparr>)\<rparr>) = None"
  shows "rebuild_and_store repairer db1 path pointer remote rs redundancy missingPieces =
           Ret (Combine None (Close repairer r),
                stored_by db1 path pointer remote rs
                  (healthy_of missingPieces (GetRemotePieces (Remote pointer)) @ newPieces)
                  (int (length (GetRemotePieces (Remote pointer))) - int (length missingPieces)))"
  unfolding rebuild_and_store_def Let_def
  using assms by (simp add: metainfo_Put_def mark_def stored_by_def)

lemma mon_stored_by:
  "mon (stored_by db1 path pointer remote rs ps h) =
     mon db1 @ [FloatVal ''healthy_ratio_before_repair'' (healthy_ratio h (Total rs)),
                Meter (outcome_meter (word_of_int (int (length ps))) rs),
                FloatVal ''healthy_ratio_after_repair'' (healthy_ratio (int (length ps)) (Total rs))]"
  by (simp add: stored_by_def mark_def)

lemma pointers_stored_by:
  "pointers (stored_by db1 path pointer remote rs ps h) =
     (pointers db1)(path \<mapsto> pointer\<lparr>Remote := Some (remote\<lparr>RemotePieces := appended ps\<rparr>)\<rparr>)"
  by (simp add: stored_by_def mark_def)

text \<open>
  C3. On a REMOTE pointer whose scheme has \<open>min \<le> repair\<close>, with
  \<open>healthy = |pieces| - |missing|\<close>: when \<open>healthy < min\<close>, \<open>Repair\<close> returns the
  irreparable error, the events it adds are the two of the attempt followed by the meter
  \<open>repair_nodes_unavailable\<close>, and no pointer is touched; when \<open>healthy > repair\<close> it
  returns the unnecessary error in the same way, with the meter \<open>repair_unnecessary\<close>;
  and when \<open>healthy = repair\<close> it goes on with the repair: whatever it returns is neither
  of these two errors, neither of the two meters is marked, the healthy ratio before the
  repair is recorded, and when every later step succeeds the pointer is stored with the
  surviving pieces followed by the uploaded ones.
\<close>

theorem Repair_threshold_checks:
  assumes got: "metainfo_Get db path = Inr pointer"
    and remote: "Type pointer = REMOTE" "Remote pointer = Some remote" "Redundancy remote = Some rs"
    and strategy: "NewRedundancyStrategyFromProto repairer (Some rs) = Inr redundancy"
    and missing: "GetMissingPieces repairer (elems (RemotePieces remote)) = Inr missingPieces"
    and order: "sint (MinReq rs) \<le> sint (RepairThreshold rs)"
    and bounds: "length (elems (RemotePieces remote)) < 2 ^ 31"
                "length missingPieces \<le> length (elems (RemotePieces remote))"
  defines "healthy \<equiv> int (length (elems (RemotePieces remote))) - int (length missingPieces)"
    and "attempt \<equiv> [Meter ''repair_attempts'',
                     IntVal ''repair_segment_size'' (sint (SegmentSize pointer))]"
    and "survivors \<equiv> healthy_of missingPieces (elems (RemotePieces remote))"
  shows "(healthy < sint (MinReq rs) \<longrightarrow>
            (\<exists>db'. Repair repairer db path = Ret (Some (CannotBeRepaired path), db') \<and>
                   mon db' = mon db @ attempt @ [Meter ''repair_nodes_unavailable''] \<and>
                   pointers db' = pointers db)) \<and>
         (healthy > sint (RepairThreshold rs) \<longrightarrow>
            (\<exists>db'. Repair repairer db path =
                     Ret (Some (AboveRepairThreshold path healthy (sint (RepairThreshold rs))), db') \<and>
                   mon db' = mon db @ attempt @ [Meter ''repair_unnecessary''] \<and>
                   pointers db' = pointers db)) \<and>
         (healthy = sint (RepairThreshold rs) \<longrightarrow>
            (\<forall>e db'. Repair repairer db path = Ret (e, db') \<longrightarrow>
               e \<noteq> Some (CannotBeRepaired path) \<and>
               e \<noteq> Some (AboveRepairThreshold path healthy (sint (RepairThreshold rs))) \<and>
               (\<exists>es. mon db' = mon db @ attempt @
                        FloatVal ''healthy_ratio_before_repair'' (healthy_ratio healthy (Total rs)) # es \<and>
                     Meter ''repair_nodes_unavailable'' \<notin> set es \<and>
                     Meter ''repair_unnecessary'' \<notin> set es)) \<and>
            (\<forall>bucketID getOrderLimits newNodes putLimits rr r nodes hashes newPieces.
               segments_createBucketID path = Inr bucketID \<and>
               CreateGetRepairOrderLimits repairer bucketID pointer survivors = Inr getOrderLimits \<and>
               FindStorageNodes repairer
                 \<lparr>RequestedCount = TotalCount redundancy - int (length survivors),
                  FreeBandwidth = CalcPieceSize repairer (SegmentSize pointer) redundancy,
                  FreeDisk = CalcPieceSize repairer (SegmentSize pointer) redundancy,
                  ExcludedNodes = map NodeId (elems (RemotePieces remote))\<rparr> = Inr newNodes \<and>
               CreatePutRepairOrderLimits repairer bucketID pointer getOrderLimits newNodes = Inr putLimits \<and>
               ec_Get repairer getOrderLimits redundancy (SegmentSize pointer) = Inr rr \<and>
               Range repairer rr = Inr r \<and>
               ec_Repair repairer putLimits redundancy r (ExpirationDate pointer) path = Inr (nodes, hashes) \<and>
               uploaded 0 nodes hashes = Ret newPieces \<and>
               PutFails db path
                 (pointer\<lparr>Remote := Some (remote\<lparr>RemotePieces := appended (survivors @ newPieces)\<rparr>)\<rparr>) = None
               \<longrightarrow>
               (\<exists>db'. Repair repairer db path = Ret (Combine None (Close repairer r), db') \<and>
                      pointers db' = (pointers db)
                        (path \<mapsto> pointer\<lparr>Remote := Some (remote\<lparr>RemotePieces :=
                                                   appended (survivors @ newPieces)\<rparr>)\<rparr>))))"
proof -
  have h: "sint (word_of_int healthy :: int32) = healthy"
    unfolding healthy_def using bounds by (intro int32_of_int) auto
  have pcs: "GetRemotePieces (Remote pointer) = elems (RemotePieces remote)"
    using remote by (simp add: GetRemotePieces_def)
  let ?db1 = "mark attempt db"
  have eq: "Repair repairer db path =
      (if healthy < sint (MinReq rs)
       then Ret (Some (CannotBeRepaired path), mark [Meter ''repair_nodes_unavailable''] ?db1)
       else if healthy > sint (RepairThreshold rs)
       then Ret (Some (AboveRepairThreshold path healthy (sint (RepairThreshold rs))),
                 mark [Meter ''repair_unnecessary''] ?db1)
       else rebuild_and_store repairer ?db1 path pointer remote rs redundancy missingPieces)"
    using got remote strategy missing h
    by (simp add: Repair_def GetRemotePieces_def GetRedundancy_def healthy_def attempt_def Let_def)
  have low: "\<exists>db'. Repair repairer db path = Ret (Some (CannotBeRepaired path), db') \<and>
                   mon db' = mon db @ attempt @ [Meter ''repair_nodes_unavailable''] \<and>
                   pointers db' = pointers db"
    if "healthy < sint (MinReq rs)"
    using that unfolding eq by (simp add: mark_def)
  have high: "\<exists>db'. Repair repairer db path =
                     Ret (Some (AboveRepairThreshold path healthy (sint (RepairThreshold rs))), db') \<and>
                   mon db' = mon db @ attempt @ [Meter ''repair_unnecessary''] \<and>
                   pointers db' = pointers db"
    if "healthy > sint (RepairThreshold rs)"
    using that order unfolding eq by (simp add: mark_def)
  have goes: "Repair repairer db path =
                rebuild_and_store repairer ?db1 path pointer remote rs redundancy missingPieces"
    if "healthy = sint (RepairThreshold rs)"
    using that order unfolding eq by simp
  have any: "e \<noteq> Some (CannotBeRepaired path) \<and>
             e \<noteq> Some (AboveRepairThreshold path healthy (sint (RepairThreshold rs))) \<and>
             (\<exists>es. mon db' = mon db @ attempt @
                      FloatVal ''healthy_ratio_before_repair'' (healthy_ratio healthy (Total rs)) # es \<and>
                   Meter ''repair_nodes_unavailable'' \<notin> set es \<and>
                   Meter ''repair_unnecessary'' \<notin> set es)"
    if eqr: "healthy = sint (RepairThreshold rs)" and res: "Repair repairer db path = Ret (e, db')"
    for e db'
  proof -
    from res goes [OF eqr]
    have r: "rebuild_and_store repairer ?db1 path pointer remote rs redundancy missingPieces = Ret (e, db')"
      by simp
    from rebuild_and_store_result [OF r] show ?thesis
      unfolding pcs healthy_def by (simp add: mark_def)
  qed
  have all: "\<exists>db'. Repair repairer db path = Ret (Combine None (Close repairer r), db') \<and>
                  pointers db' = (pointers db)
                    (path \<mapsto> pointer\<lparr>Remote := Some (remote\<lparr>RemotePieces :=
                                               appended (survivors @ newPieces)\<rparr>)\<rparr>)"
    if eqr: "healthy = sint (RepairThreshold rs)"
      and s: "segments_createBucketID path = Inr bucketID"
        "CreateGetRepairOrderLimits repairer bucketID pointer survivors = Inr getOrderLimits"
        "FindStorageNodes repairer
                 \<lparr>RequestedCount = TotalCount redundancy - int (length survivors),
                  FreeBandwidth = CalcPieceSize repairer (SegmentSize pointer) redundancy,
                  FreeDisk = CalcPieceSize repairer (SegmentSize pointer) redundancy,
                  ExcludedNodes = map NodeId (elems (RemotePieces remote))\<rparr> = Inr newNodes"
        "CreatePutRepairOrderLimits repairer bucketID pointer getOrderLimits newNodes = Inr putLimits"
        "ec_Get repairer getOrderLimits redundancy (SegmentSize pointer) = Inr rr"
        "Range repairer rr = Inr r"
        "ec_Repair repairer putLimits redundancy r (ExpirationDate pointer) path = Inr (nodes, hashes)"
        "uploaded 0 nodes hashes = Ret newPieces"
        "PutFails db path
                 (pointer\<lparr>Remote := Some (remote\<lparr>RemotePieces := appended (survivors @ newPieces)\<rparr>)\<rparr>) = None"
    for bucketID getOrderLimits newNodes putLimits rr r nodes hashes newPieces
  proof -
    have p: "PutFails ?db1 = PutFails db" "pointers ?db1 = pointers db"
      by (simp_all add: mark_def)
    from rebuild_and_store_steps [of path bucketID repairer pointer missingPieces getOrderLimits
        redundancy newNodes putLimits rr r nodes hashes newPieces ?db1 remote rs]
      s
    have "rebuild_and_store repairer ?db1 path pointer remote rs redundancy missingPieces =
           Ret (Combine None (Close repairer r),
                stored_by ?db1 path pointer remote rs (survivors @ newPieces)
                  (int (length (GetRemotePieces (Remote pointer))) - int (length missingPieces)))"
      unfolding pcs survivors_def p by simp
    with goes [OF eqr] show ?thesis
      by (simp add: pointers_stored_by p survivors_def)
  qed
  from low high any all show ?thesis by blast
qed

lemma example_bucket: "segments_createBucketID example_path = Inr ''proj/bucket''"
  by (simp add: segments_createBucketID_def example_path_def)

lemma example_got: "metainfo_Get (example_db ptr) example_path = Inr ptr"
  by (simp add: metainfo_Get_def example_db_def)

lemma example_remote_simps:
  "Type (example_pointer rs nums) = REMOTE"
  "Remote (example_pointer rs nums) = Some (example_remote rs nums)"
  "Redundancy (example_remote rs nums) = Some rs"
  "elems (RemotePieces (example_remote rs nums)) = map example_piece nums"
  "SegmentSize (example_pointer rs nums) = 1024"
  "ExpirationDate (example_pointer rs nums) = 0"
  by (simp_all add: example_pointer_def example_remote_def elems_def)

lemma example_repairer_simps:
  "NewRedundancyStrategyFromProto (example_repairer ms ns) (Some rs) = Inr \<lparr>TotalCount = sint (Total rs)\<rparr>"
  "GetMissingPieces (example_repairer ms ns) ps = Inr ms"
  "CreateGetRepairOrderLimits (example_repairer ms ns) b p hs = Inr []"
  "FindStorageNodes (example_repairer ms ns) req = Inr []"
  "CreatePutRepairOrderLimits (example_repairer ms ns) b p ls nn = Inr []"
  "ec_Get (example_repairer ms ns) ls red sz = Inr []"
  "Range (example_repairer ms ns) rr = Inr rr"
  "Close (example_repairer ms ns) r = None"
  "ec_Repair (example_repairer ms ns) ls red r ex pa = Inr (ns, replicate (length ns) None)"
  "CalcPieceSize (example_repairer ms ns) sz red = 512"
  by (simp_all add: example_repairer_def GetTotal_def)

lemma example_scheme_simps:
  "sint (MinReq (example_scheme opt n)) = 2"
  "sint (RepairThreshold (example_scheme opt n)) = 3"
  "SuccessThreshold (example_scheme opt n) = opt"
  "Total (example_scheme opt n) = n"
  by (simp_all add: example_scheme_def)

lemma example_uploaded: "uploaded 0 example_uploads (replicate 6 None) = Ret example_new_pieces"
  by (simp add: example_uploads_def example_new_pieces_def new_node_def numeral_eq_Suc)

lemma example_db_simps:
  "mon (example_db ptr) = []" "PutFails (example_db ptr) pa p = None"
  "pointers (example_db ptr) = [example_path \<mapsto> ptr]"
  by (simp_all add: example_db_def)

theorem Repair_threshold_checks_witness:
  "(\<exists>db'. Repair (example_repairer [0, 1, 2, 3, 4] [])
            (example_db (example_pointer (example_scheme 5 6) [0, 1, 2, 3, 4, 5])) example_path =
            Ret (Some (CannotBeRepaired example_path), db') \<and>
          mon db' = [Meter ''repair_attempts'', IntVal ''repair_segment_size'' 1024,
                     Meter ''repair_nodes_unavailable'']) \<and>
   (\<exists>db'. Repair (example_repairer [0] [])
            (example_db (example_pointer (example_scheme 5 6) [0, 1, 2, 3, 4, 5])) example_path =
            Ret (Some (AboveRepairThreshold example_path 5 3), db') \<and>
          mon db' = [Meter ''repair_attempts'', IntVal ''repair_segment_size'' 1024,
                     Meter ''repair_unnecessary'']) \<and>
   (\<exists>db'. Repair (example_repairer [3, 4, 5] example_uploads)
            (example_db (example_pointer (example_scheme 5 6) [0, 1, 2, 3, 4, 5])) example_path =
            Ret (None, db') \<and>
          map_option (\<lambda>p. GetRemotePieces (Remote p)) (pointers db' example_path) =
            Some (map example_piece [0, 1, 2] @ example_new_pieces))"
proof -
  let ?rs = "example_scheme 5 6"
  let ?P = "example_pointer ?rs [0, 1, 2, 3, 4, 5]"
  let ?D = "example_db ?P"
  let ?R = "example_repairer [3, 4, 5] example_uploads"
  have o: "sint (MinReq ?rs) \<le> sint (RepairThreshold ?rs)"
    by (simp add: example_scheme_simps)
  have b: "length (elems (RemotePieces (example_remote ?rs [0, 1, 2, 3, 4, 5]))) < 2 ^ 31"
    by (simp add: example_remote_simps)
  have c: "length ms \<le> 6 \<Longrightarrow>
      length ms \<le> length (elems (RemotePieces (example_remote ?rs [0, 1, 2, 3, 4, 5])))" for ms :: "int32 list"
    by (simp add: example_remote_simps)
  note T = Repair_threshold_checks [OF example_got example_remote_simps(1,2,3)]
  have 1: "\<exists>db'. Repair (example_repairer [0, 1, 2, 3, 4] []) ?D example_path =
            Ret (Some (CannotBeRepaired example_path), db') \<and>
          mon db' = [Meter ''repair_attempts'', IntVal ''repair_segment_size'' 1024,
                     Meter ''repair_nodes_unavailable'']"
    using T [OF example_repairer_simps(1) [of "[0, 1, 2, 3, 4]" "[]"]
               example_repairer_simps(2) [of "[0, 1, 2, 3, 4]" "[]"] o b c]
    by (simp add: example_remote_simps example_scheme_simps example_db_simps) blast
  have 2: "\<exists>db'. Repair (example_repairer [0] []) ?D example_path =
            Ret (Some (AboveRepairThreshold example_path 5 3), db') \<and>
          mon db' = [Meter ''repair_attempts'', IntVal ''repair_segment_size'' 1024,
                     Meter ''repair_unnecessary'']"
    using T [OF example_repairer_simps(1) [of "[0]" "[]"] example_repairer_simps(2) [of "[0]" "[]"] o b c]
    by (simp add: example_remote_simps example_scheme_simps example_db_simps) blast
  have h: "healthy_of [3, 4, 5] (map example_piece [0, 1, 2, 3, 4, 5]) = map example_piece [0, 1, 2]"
    by (simp add: healthy_of_def sliceToSet_def example_piece_def)
  have len: "length example_uploads = 6" by (simp add: example_uploads_def)
  note T3 = T [OF example_repairer_simps(1) [of "[3, 4, 5]" example_uploads]
               example_repairer_simps(2) [of "[3, 4, 5]" example_uploads] o b c,
               THEN conjunct2, THEN conjunct2, THEN mp, THEN conjunct2, rule_format,
               where bucketID = "''proj/bucket''" and getOrderLimits = "[]" and newNodes = "[]"
                 and putLimits = "[]" and rr = "[]" and r = "[]" and nodes = example_uploads
                 and hashes = "replicate 6 None" and newPieces = example_new_pieces]
  have "\<exists>db'. Repair ?R ?D example_path = Ret (None, db') \<and>
          pointers db' = [example_path \<mapsto> ?P\<lparr>Remote := Some (example_remote ?rs [0, 1, 2, 3, 4, 5]
               \<lparr>RemotePieces := appended (map example_piece [0, 1, 2] @ example_new_pieces)\<rparr>)\<rparr>]"
    using T3
    by (simp add: example_remote_simps example_scheme_simps example_db_simps
          example_repairer_simps example_bucket example_uploaded len
          healthy_of_def sliceToSet_def example_piece_def)
  then have 3: "\<exists>db'. Repair ?R ?D example_path = Ret (None, db') \<and>
          map_option (\<lambda>p. GetRemotePieces (Remote p)) (pointers db' example_path) =
            Some (map example_piece [0, 1, 2] @ example_new_pieces)"
    by (auto simp: GetRemotePieces_def elems_def appended_def example_new_pieces_def)
  from 1 2 3 show ?thesis by (intro conjI)
qed

subsection \<open>CalcNeededNodes\<close>



subsection \<open>Repair: the rewritten pointer\<close>

lemma Combine_None: "Combine e c = None \<longleftrightarrow> e = None \<and> c = None"
  by (cases e; cases c) simp_all

lemma rebuild_and_store_None:
  assumes "rebuild_and_store repairer db1 path pointer remote rs redundancy missingPieces = Ret (None, db')"
  shows "\<exists>limits r nodes hashes newPieces.
           ec_Repair repairer limits redundancy r (ExpirationDate pointer) path = Inr (nodes, hashes) \<and>
           uploaded 0 nodes hashes = Ret newPieces \<and>
           db' = stored_by db1 path pointer remote rs
                   (healthy_of missingPieces (GetRemotePieces (Remote pointer)) @ newPieces)
                   (int (length (GetRemotePieces (Remote pointer))) - int (length missingPieces))"
  using assms
  unfolding rebuild_and_store_def Let_def stored_by_def
  apply (clarsimp simp: Combine_None metainfo_Put_def
        split: sum.splits go.splits prod.splits option.splits)
  subgoal for bucketID getLimits newNodes putLimits rr r nodes hashes newPieces
    apply (rule exI [of _ putLimits], rule exI [of _ r], rule exI [of _ nodes], rule exI [of _ hashes])
    apply (simp add: mark_def)
    done
  done

lemma elems_appended: "elems (appended xs) = xs"
  by (simp add: elems_def appended_def)

lemma uploaded_nodes:
  "uploaded i nodes hashes = Ret ps \<Longrightarrow> map NodeId ps = map Id (List.map_filter (\<lambda>x. x) nodes)"
proof (induction i nodes hashes arbitrary: ps rule: uploaded.induct)
  case (1 i hashes)
  then show ?case by (simp add: List.map_filter_simps)
next
  case (2 i nodes hashes)
  then show ?case by (simp add: List.map_filter_simps)
next
  case (3 i node nodes hashes)
  then show ?case
    by (auto simp: List.map_filter_simps split: if_splits go.splits)
qed

lemma Repair_NoneE:
  assumes "Repair repairer db path = Ret (None, db')"
  obtains pointer remote rs redundancy missingPieces where
    "metainfo_Get db path = Inr pointer" "Type pointer = REMOTE"
    "Remote pointer = Some remote" "Redundancy remote = Some rs"
    "GetMissingPieces repairer (elems (RemotePieces remote)) = Inr missingPieces"
    "rebuild_and_store repairer
       (mark [Meter ''repair_attempts'', IntVal ''repair_segment_size'' (sint (SegmentSize pointer))] db)
       path pointer remote rs redundancy missingPieces = Ret (None, db')"
  using assms unfolding Repair_def Let_def
  by (auto simp: GetRemotePieces_def split: sum.splits option.splits if_splits)

lemma outcome_meter_of_length:
  assumes "length ps < 2 ^ 31"
  shows "outcome_meter (word_of_int (int (length ps))) rs =
           (if int (length ps) \<le> sint (RepairThreshold rs) then ''repair_failed''
            else if int (length ps) < sint (SuccessThreshold rs) then ''repair_partial''
            else ''repair_success'')"
proof -
  have "sint (word_of_int (int (length ps)) :: int32) = int (length ps)"
    using assms by (rule int32_of_length)
  then show ?thesis
    unfolding outcome_meter_def by simp
qed

text \<open>What a run of \<open>Repair\<close> without error has done, for the theorems that follow.\<close>

lemma Repair_None_run:
  assumes run: "Repair repairer db path = Ret (None, db')"
    and got: "metainfo_Get db path = Inr pointer"
    and missing: "GetMissingPieces repairer (GetRemotePieces (Remote pointer)) = Inr missingPieces"
    and scheme: "GetRedundancy (Remote pointer) = Some rs"
  obtains remote limits redundancy r nodes hashes newPieces where
    "Remote pointer = Some remote"
    "ec_Repair repairer limits redundancy r (ExpirationDate pointer) path = Inr (nodes, hashes)"
    "uploaded 0 nodes hashes = Ret newPieces"
    "db' = stored_by
              (mark [Meter ''repair_attempts'', IntVal ''repair_segment_size'' (sint (SegmentSize pointer))] db)
              path pointer remote rs
              (healthy_of missingPieces (GetRemotePieces (Remote pointer)) @ newPieces)
              (int (length (GetRemotePieces (Remote pointer))) - int (length missingPieces))"
proof -
  from run obtain pointer0 remote rs0 redundancy missing0 where
    a: "metainfo_Get db path = Inr pointer0" "Type pointer0 = REMOTE"
       "Remote pointer0 = Some remote" "Redundancy remote = Some rs0"
       "GetMissingPieces repairer (elems (RemotePieces remote)) = Inr missing0"
    and rest: "rebuild_and_store repairer
       (mark [Meter ''repair_attempts'', IntVal ''repair_segment_size'' (sint (SegmentSize pointer0))] db)
       path pointer0 remote rs0 redundancy missing0 = Ret (None, db')"
    by (rule Repair_NoneE)
  from a got have p: "pointer0 = pointer" by simp
  from a p scheme have r: "rs0 = rs" by (simp add: GetRedundancy_def)
  from a p have pcs: "GetRemotePieces (Remote pointer) = elems (RemotePieces remote)"
    by (simp add: GetRemotePieces_def)
  from a missing pcs have m: "missing0 = missingPieces" by simp
  from rebuild_and_store_None [OF rest] obtain limits r nodes hashes newPieces where
    "ec_Repair repairer limits redundancy r (ExpirationDate pointer) path = Inr (nodes, hashes)"
    "uploaded 0 nodes hashes = Ret newPieces"
    "db' = stored_by
              (mark [Meter ''repair_attempts'', IntVal ''repair_segment_size'' (sint (SegmentSize pointer))] db)
              path pointer remote rs
              (healthy_of missingPieces (GetRemotePieces (Remote pointer)) @ newPieces)
              (int (length (GetRemotePieces (Remote pointer))) - int (length missingPieces))"
    unfolding p r m by blast
  with a(3) p that show thesis by blast
qed

text \<open>
  C4 (amended). When \<open>Repair\<close> returns no error, the pointer stored at the path holds
  the surviving pieces (those whose number is not missing) followed by one piece for every
  node the upload reached; the events added are the two of the attempt, the healthy ratio
  before, one outcome meter and the healthy ratio after; and for fewer than \<open>2^31\<close>
  pieces the outcome is \<open>repair_failed\<close> when \<open>|pieces| \<le> repair\<close>, \<open>repair_partial\<close>
  when \<open>repair < |pieces| < optimal\<close>, and \<open>repair_success\<close> when \<open>|pieces| > repair\<close>
  and \<open>|pieces| \<ge> optimal\<close>. The pointer is stored in all three cases.
\<close>

theorem Repair_completes:
  assumes run: "Repair repairer db path = Ret (None, db')"
    and got: "metainfo_Get db path = Inr pointer"
    and missing: "GetMissingPieces repairer (GetRemotePieces (Remote pointer)) = Inr missingPieces"
    and scheme: "GetRedundancy (Remote pointer) = Some rs"
  shows "\<exists>limits redundancy r nodes hashes newPieces pointer' outcome before after.
           ec_Repair repairer limits redundancy r (ExpirationDate pointer) path = Inr (nodes, hashes) \<and>
           uploaded 0 nodes hashes = Ret newPieces \<and>
           map NodeId newPieces = map Id (List.map_filter (\<lambda>x. x) nodes) \<and>
           pointers db' = (pointers db)(path \<mapsto> pointer') \<and>
           GetRemotePieces (Remote pointer') =
             healthy_of missingPieces (GetRemotePieces (Remote pointer)) @ newPieces \<and>
           mon db' = mon db @
             [Meter ''repair_attempts'', IntVal ''repair_segment_size'' (sint (SegmentSize pointer)),
              FloatVal ''healthy_ratio_before_repair'' before, Meter outcome,
              FloatVal ''healthy_ratio_after_repair'' after] \<and>
           (length (GetRemotePieces (Remote pointer')) < 2 ^ 31 \<longrightarrow>
              outcome =
                (if int (length (GetRemotePieces (Remote pointer'))) \<le> sint (RepairThreshold rs)
                 then ''repair_failed''
                 else if int (length (GetRemotePieces (Remote pointer'))) < sint (SuccessThreshold rs)
                 then ''repair_partial''
                 else ''repair_success''))"
proof -
  from run got missing scheme obtain remote limits redundancy r nodes hashes newPieces where
    rem: "Remote pointer = Some remote"
    and e: "ec_Repair repairer limits redundancy r (ExpirationDate pointer) path = Inr (nodes, hashes)"
    and u: "uploaded 0 nodes hashes = Ret newPieces"
    and d: "db' = stored_by
              (mark [Meter ''repair_attempts'', IntVal ''repair_segment_size'' (sint (SegmentSize pointer))] db)
              path pointer remote rs
              (healthy_of missingPieces (GetRemotePieces (Remote pointer)) @ newPieces)
              (int (length (GetRemotePieces (Remote pointer))) - int (length missingPieces))"
    by (rule Repair_None_run)
  let ?ps = "healthy_of missingPieces (GetRemotePieces (Remote pointer)) @ newPieces"
  let ?p' = "pointer\<lparr>Remote := Some (remote\<lparr>RemotePieces := appended ?ps\<rparr>)\<rparr>"
  let ?out = "outcome_meter (word_of_int (int (length ?ps))) rs"
  let ?before = "healthy_ratio (int (length (GetRemotePieces (Remote pointer))) - int (length missingPieces))
                   (Total rs)"
  let ?after = "healthy_ratio (int (length ?ps)) (Total rs)"
  have 1: "pointers db' = (pointers db)(path \<mapsto> ?p')"
    unfolding d by (simp add: pointers_stored_by mark_def)
  have 2: "GetRemotePieces (Remote ?p') = ?ps"
    by (simp add: GetRemotePieces_def elems_appended)
  have 3: "mon db' = mon db @
             [Meter ''repair_attempts'', IntVal ''repair_segment_size'' (sint (SegmentSize pointer)),
              FloatVal ''healthy_ratio_before_repair'' ?before, Meter ?out,
              FloatVal ''healthy_ratio_after_repair'' ?after]"
    unfolding d by (simp add: mon_stored_by mark_def)
  have 4: "length ?ps < 2 ^ 31 \<longrightarrow>
      ?out = (if int (length ?ps) \<le> sint (RepairThreshold rs) then ''repair_failed''
              else if int (length ?ps) < sint (SuccessThreshold rs) then ''repair_partial''
              else ''repair_success'')"
    using outcome_meter_of_length [of ?ps rs] by blast
  show ?thesis
    apply (rule exI [of _ limits], rule exI [of _ redundancy], rule exI [of _ r],
           rule exI [of _ nodes], rule exI [of _ hashes], rule exI [of _ newPieces],
           rule exI [of _ ?p'], rule exI [of _ ?out], rule exI [of _ ?before], rule exI [of _ ?after])
    unfolding 2
    using e u uploaded_nodes [OF u] 1 3 4 by (intro conjI refl)
qed

lemmas example_defs = example_scheme_def example_piece_def example_remote_def example_pointer_def
  example_db_def example_repairer_def new_node_def

lemma example_run:
  "Repair (example_repairer [3, 4, 5] example_uploads)
      (example_db (example_pointer (example_scheme 5 6) [0, 1, 2, 3, 4, 5])) example_path =
     Ret (None, stored_by
       (mark [Meter ''repair_attempts'', IntVal ''repair_segment_size'' 1024]
          (example_db (example_pointer (example_scheme 5 6) [0, 1, 2, 3, 4, 5])))
       example_path (example_pointer (example_scheme 5 6) [0, 1, 2, 3, 4, 5])
       (example_remote (example_scheme 5 6) [0, 1, 2, 3, 4, 5]) (example_scheme 5 6)
       (map example_piece [0, 1, 2] @ example_new_pieces) 3)"
proof -
  have len: "length example_uploads = 6" by (simp add: example_uploads_def)
  show ?thesis
    by (simp add: Repair_def rebuild_and_store_def Let_def metainfo_Get_def example_defs
         GetRemotePieces_def elems_def GetRedundancy_def GetTotal_def healthy_of_def sliceToSet_def
         len example_bucket example_uploaded stored_by_def metainfo_Put_def mark_def)
qed

lemma replaced_uploaded:
  "uploaded 0 [None, None, new_node 12] (replicate 3 None) = Ret [replaced_piece]"
  by (simp add: new_node_def replaced_piece_def numeral_eq_Suc)

lemma replaced_run:
  "Repair (example_repairer [2] [None, None, new_node 12])
      (example_db (example_pointer (example_scheme opt n) [0, 1, 2])) example_path =
     Ret (None, stored_by
       (mark [Meter ''repair_attempts'', IntVal ''repair_segment_size'' 1024]
          (example_db (example_pointer (example_scheme opt n) [0, 1, 2])))
       example_path (example_pointer (example_scheme opt n) [0, 1, 2])
       (example_remote (example_scheme opt n) [0, 1, 2]) (example_scheme opt n)
       (map example_piece [0, 1] @ [replaced_piece]) 2)"
proof -
  have u: "uploaded 0 [None, None, Some \<lparr>Id = [12], Address = ''10.0.0.1:7777''\<rparr>] [None, None, None]
             = Ret [replaced_piece]"
    using replaced_uploaded by (simp add: new_node_def numeral_eq_Suc)
  show ?thesis
    by (simp add: Repair_def rebuild_and_store_def Let_def metainfo_Get_def example_defs
         GetRemotePieces_def elems_def GetRedundancy_def GetTotal_def healthy_of_def sliceToSet_def
         example_bucket u stored_by_def metainfo_Put_def mark_def numeral_eq_Suc)
       (simp add: replaced_piece_def)
qed

text \<open>
  C4 (counterexample). Under the scheme \<open>(2, 3, 3, 4)\<close>, where \<open>repair = optimal\<close>, a
  pointer of three pieces loses piece 2 and the repair uploads it to a new node: \<open>Repair\<close>
  returns no error and stores three pieces, as many as \<open>optimal\<close>, and the outcome marked
  is \<open>repair_failed\<close>, not \<open>repair_success\<close>.
\<close>

theorem Repair_at_optimal_is_failed:
  "\<exists>db' pointer'.
     Repair (example_repairer [2] [None, None, new_node 12])
       (example_db (example_pointer (example_scheme 3 4) [0, 1, 2])) example_path = Ret (None, db') \<and>
     pointers db' example_path = Some pointer' \<and>
     GetRemotePieces (Remote pointer') = [example_piece 0, example_piece 1, replaced_piece] \<and>
     sint (SuccessThreshold (example_scheme 3 4)) = 3 \<and>
     mon db' = [Meter ''repair_attempts'', IntVal ''repair_segment_size'' 1024,
                FloatVal ''healthy_ratio_before_repair'' (2, 4), Meter ''repair_failed'',
                FloatVal ''healthy_ratio_after_repair'' (3, 4)]"
  unfolding replaced_run
  by (simp add: stored_by_def mark_def example_db_def GetRemotePieces_def elems_def appended_def
        outcome_meter_def healthy_ratio_def example_scheme_def)

theorem Repair_completes_witness:
  "\<exists>db' pointer'.
     Repair (example_repairer [3, 4, 5] example_uploads)
       (example_db (example_pointer (example_scheme 5 6) [0, 1, 2, 3, 4, 5])) example_path = Ret (None, db') \<and>
     pointers db' example_path = Some pointer' \<and>
     map NodeId (GetRemotePieces (Remote pointer')) = [[0], [1], [2], [13], [14], [15]] \<and>
     (\<exists>before after.
        mon db' = [Meter ''repair_attempts'', IntVal ''repair_segment_size'' 1024,
                   FloatVal ''healthy_ratio_before_repair'' before, Meter ''repair_success'',
                   FloatVal ''healthy_ratio_after_repair'' after])"
proof -
  let ?rs = "example_scheme 5 6"
  let ?P = "example_pointer ?rs [0, 1, 2, 3, 4, 5]"
  let ?R = "example_repairer [3, 4, 5] example_uploads"
  have m: "GetMissingPieces ?R (GetRemotePieces (Remote ?P)) = Inr [3, 4, 5]"
    by (simp add: example_repairer_def)
  have s: "GetRedundancy (Remote ?P) = Some ?rs"
    by (simp add: GetRedundancy_def example_pointer_def example_remote_def)
  have pcs: "GetRemotePieces (Remote ?P) = map example_piece [0, 1, 2, 3, 4, 5]"
    by (simp add: GetRemotePieces_def example_remote_simps)
  let ?D = "stored_by
       (mark [Meter ''repair_attempts'', IntVal ''repair_segment_size'' 1024] (example_db ?P))
       example_path ?P (example_remote ?rs [0, 1, 2, 3, 4, 5]) ?rs
       (map example_piece [0, 1, 2] @ example_new_pieces) 3"
  from Repair_completes [OF example_run example_got m s]
  obtain limits redundancy r nodes hashes newPieces pointer' outcome before after where
    e: "ec_Repair ?R limits redundancy r (ExpirationDate ?P) example_path = Inr (nodes, hashes)"
    and u: "map NodeId newPieces = map Id (List.map_filter (\<lambda>x. x) nodes)"
    and p: "pointers ?D = (pointers (example_db ?P))(example_path \<mapsto> pointer')"
    and g: "GetRemotePieces (Remote pointer') =
              healthy_of [3, 4, 5] (GetRemotePieces (Remote ?P)) @ newPieces"
    and o: "mon ?D = mon (example_db ?P) @
             [Meter ''repair_attempts'', IntVal ''repair_segment_size'' (sint (SegmentSize ?P)),
              FloatVal ''healthy_ratio_before_repair'' before, Meter outcome,
              FloatVal ''healthy_ratio_after_repair'' after]"
    and c: "length (GetRemotePieces (Remote pointer')) < 2 ^ 31 \<longrightarrow>
              outcome =
                (if int (length (GetRemotePieces (Remote pointer'))) \<le> sint (RepairThreshold ?rs)
                 then ''repair_failed''
                 else if int (length (GetRemotePieces (Remote pointer'))) < sint (SuccessThreshold ?rs)
                 then ''repair_partial''
                 else ''repair_success'')"
    by blast
  from e have n: "nodes = example_uploads"
    by (simp add: example_repairer_def)
  have ids: "map NodeId (GetRemotePieces (Remote pointer')) = [[0], [1], [2], [13], [14], [15]]"
    unfolding g pcs
    using u by (simp add: n example_uploads_def new_node_def List.map_filter_simps
                  healthy_of_def sliceToSet_def example_piece_def)
  from arg_cong [OF ids, of length]
  have "length (GetRemotePieces (Remote pointer')) = 6"
    by simp
  with c have out: "outcome = ''repair_success''"
    by (simp add: example_scheme_def)
  from p have p': "pointers ?D example_path = Some pointer'"
    by simp
  from o have o': "mon ?D = [Meter ''repair_attempts'', IntVal ''repair_segment_size'' 1024,
                   FloatVal ''healthy_ratio_before_repair'' before, Meter ''repair_success'',
                   FloatVal ''healthy_ratio_after_repair'' after]"
    unfolding out by (simp add: example_db_simps example_remote_simps)
  show ?thesis
    apply (rule exI [of _ ?D], rule exI [of _ pointer'])
    apply (intro conjI)
       apply (rule example_run)
      apply (rule p')
     apply (rule ids)
    apply (rule exI [of _ before], rule exI [of _ after])
    apply (rule o')
    done
qed

subsection \<open>Repair: monotonicity\<close>

text \<open>
  C5 (counterexample). Under the scheme \<open>(2, 3, 5, 6)\<close>, a pointer of three pieces (as
  many as \<open>repair\<close>) loses piece 2 and the repair uploads it to a new node: \<open>Repair\<close>
  returns no error, and the stored pointer has three pieces, not more than \<open>repair\<close>.
\<close>

theorem Repair_without_error_stays_at_threshold:
  "\<exists>db' pointer'.
     length (GetRemotePieces (Remote (example_pointer (example_scheme 5 6) [0, 1, 2]))) = 3 \<and>
     sint (RepairThreshold (example_scheme 5 6)) = 3 \<and>
     Repair (example_repairer [2] [None, None, new_node 12])
       (example_db (example_pointer (example_scheme 5 6) [0, 1, 2])) example_path = Ret (None, db') \<and>
     pointers db' example_path = Some pointer' \<and>
     length (GetRemotePieces (Remote pointer')) = 3 \<and>
     Meter ''repair_failed'' \<in> set (mon db')"
  unfolding replaced_run
  by (simp add: stored_by_def mark_def example_db_def GetRemotePieces_def elems_def appended_def
        outcome_meter_def example_scheme_def example_remote_def example_pointer_def)

text \<open>
  C5 (amended). For any pointer \<open>P\<close>, when \<open>Repair\<close> returns no error a pointer \<open>P'\<close>
  is stored at the path; every piece of \<open>P\<close> whose number is not missing is a piece of
  \<open>P'\<close>, so \<open>P'\<close> has at least as many pieces as \<open>P\<close> has healthy ones; and for fewer
  than \<open>2^31\<close> pieces, \<open>|P'.pieces| > repair\<close> holds exactly when the outcome marked,
  the event that follows the two of the attempt and the healthy ratio before, is not
  \<open>repair_failed\<close>.
\<close>

theorem Repair_monotone:
  assumes run: "Repair repairer db path = Ret (None, db')"
    and got: "metainfo_Get db path = Inr pointer"
    and missing: "GetMissingPieces repairer (GetRemotePieces (Remote pointer)) = Inr missingPieces"
    and scheme: "GetRedundancy (Remote pointer) = Some rs"
  shows "\<exists>pointer' outcome.
           pointers db' path = Some pointer' \<and>
           (\<forall>piece \<in> set (GetRemotePieces (Remote pointer)).
              PieceNum piece \<notin> set missingPieces \<longrightarrow> piece \<in> set (GetRemotePieces (Remote pointer'))) \<and>
           length (healthy_of missingPieces (GetRemotePieces (Remote pointer)))
             \<le> length (GetRemotePieces (Remote pointer')) \<and>
           drop (length (mon db) + 3) (mon db') =
             [Meter outcome,
              FloatVal ''healthy_ratio_after_repair''
                (healthy_ratio (int (length (GetRemotePieces (Remote pointer')))) (Total rs))] \<and>
           (length (GetRemotePieces (Remote pointer')) < 2 ^ 31 \<longrightarrow>
              (sint (RepairThreshold rs) < int (length (GetRemotePieces (Remote pointer')))
                 \<longleftrightarrow> outcome \<noteq> ''repair_failed''))"
proof -
  from run got missing scheme obtain remote limits redundancy r nodes hashes newPieces where
    rem: "Remote pointer = Some remote"
    and d: "db' = stored_by
              (mark [Meter ''repair_attempts'', IntVal ''repair_segment_size'' (sint (SegmentSize pointer))] db)
              path pointer remote rs
              (healthy_of missingPieces (GetRemotePieces (Remote pointer)) @ newPieces)
              (int (length (GetRemotePieces (Remote pointer))) - int (length missingPieces))"
    by (rule Repair_None_run)
  let ?ps = "healthy_of missingPieces (GetRemotePieces (Remote pointer)) @ newPieces"
  let ?p' = "pointer\<lparr>Remote := Some (remote\<lparr>RemotePieces := appended ?ps\<rparr>)\<rparr>"
  let ?out = "outcome_meter (word_of_int (int (length ?ps))) rs"
  have 1: "pointers db' path = Some ?p'"
    unfolding d by (simp add: pointers_stored_by)
  have 2: "GetRemotePieces (Remote ?p') = ?ps"
    by (simp add: GetRemotePieces_def elems_appended)
  have 3: "\<forall>piece \<in> set (GetRemotePieces (Remote pointer)).
              PieceNum piece \<notin> set missingPieces \<longrightarrow> piece \<in> set ?ps"
    by (simp add: healthy_of_def sliceToSet_def)
  have 4: "length (healthy_of missingPieces (GetRemotePieces (Remote pointer))) \<le> length ?ps"
    by simp
  have 5: "drop (length (mon db) + 3) (mon db') =
             [Meter ?out,
              FloatVal ''healthy_ratio_after_repair'' (healthy_ratio (int (length ?ps)) (Total rs))]"
    unfolding d by (simp add: mon_stored_by mark_def)
  have 6: "length ?ps < 2 ^ 31 \<longrightarrow>
             (sint (RepairThreshold rs) < int (length ?ps) \<longleftrightarrow> ?out \<noteq> ''repair_failed'')"
    using outcome_meter_of_length [of ?ps rs] by auto
  show ?thesis
    apply (rule exI [of _ ?p'], rule exI [of _ ?out])
    unfolding 2
    using 1 3 4 5 6 by (intro conjI)
qed

theorem Repair_monotone_witness:
  "\<exists>db' pointer'.
     Repair (example_repairer [3, 4, 5] example_uploads)
       (example_db (example_pointer (example_scheme 5 6) [0, 1, 2, 3, 4, 5])) example_path = Ret (None, db') \<and>
     pointers db' example_path = Some pointer' \<and>
     example_piece 0 \<in> set (GetRemotePieces (Remote pointer')) \<and>
     example_piece 1 \<in> set (GetRemotePieces (Remote pointer')) \<and>
     example_piece 2 \<in> set (GetRemotePieces (Remote pointer')) \<and>
     3 \<le> length (GetRemotePieces (Remote pointer'))"
proof -
  let ?rs = "example_scheme 5 6"
  let ?P = "example_pointer ?rs [0, 1, 2, 3, 4, 5]"
  let ?R = "example_repairer [3, 4, 5] example_uploads"
  have m: "GetMissingPieces ?R (GetRemotePieces (Remote ?P)) = Inr [3, 4, 5]"
    by (simp add: example_repairer_def)
  have s: "GetRedundancy (Remote ?P) = Some ?rs"
    by (simp add: GetRedundancy_def example_pointer_def example_remote_def)
  have pcs: "GetRemotePieces (Remote ?P) = map example_piece [0, 1, 2, 3, 4, 5]"
    by (simp add: GetRemotePieces_def example_remote_simps)
  let ?D = "stored_by
       (mark [Meter ''repair_attempts'', IntVal ''repair_segment_size'' 1024] (example_db ?P))
       example_path ?P (example_remote ?rs [0, 1, 2, 3, 4, 5]) ?rs
       (map example_piece [0, 1, 2] @ example_new_pieces) 3"
  from Repair_monotone [OF example_run example_got m s]
  obtain pointer' where
    p: "pointers ?D example_path = Some pointer'"
    and k: "\<forall>piece \<in> set (GetRemotePieces (Remote ?P)).
              PieceNum piece \<notin> set [3, 4, 5] \<longrightarrow> piece \<in> set (GetRemotePieces (Remote pointer'))"
    and l: "length (healthy_of [3, 4, 5] (GetRemotePieces (Remote ?P)))
             \<le> length (GetRemotePieces (Remote pointer'))"
    by blast
  from k have k0: "example_piece 0 \<in> set (GetRemotePieces (Remote pointer'))"
    unfolding pcs by (simp add: example_piece_def)
  from k have k1: "example_piece 1 \<in> set (GetRemotePieces (Remote pointer'))"
    unfolding pcs by (simp add: example_piece_def)
  from k have k2: "example_piece 2 \<in> set (GetRemotePieces (Remote pointer'))"
    unfolding pcs by (simp add: example_piece_def)
  from l have l': "3 \<le> length (GetRemotePieces (Remote pointer'))"
    unfolding pcs by (simp add: healthy_of_def sliceToSet_def example_piece_def)
  show ?thesis
    apply (rule exI [of _ ?D], rule exI [of _ pointer'])
    apply (intro conjI)
         apply (rule example_run)
        apply (rule p)
       apply (rule k0)
      apply (rule k1)
     apply (rule k2)
    apply (rule l')
    done
qed

subsection \<open>CommitSegment: the repair threshold\<close>

lemmas test_defs = commit_endpoint_def test_scheme_def test_limit_def test_pointer_def
  test_request_def example_piece_def





lemma test_auth:
  "validateAuth commit_endpoint a = Inr \<lparr>ProjectID = ''proj'', Secret = []\<rparr>"
  by (simp add: validateAuth_def commit_endpoint_def)

lemma test_bucket: "validateBucket (Bucket (test_request k nums)) = None"
  by (simp add: validateBucket_def test_request_def)

lemma test_commit_1: "validateCommit commit_endpoint (test_request k [0]) = Ret None"
  by (simp add: validateCommit_def validatePointer_def test_defs Error_New_def elems_def IsZero_def)

lemma test_commit_3: "validateCommit commit_endpoint (test_request k [0, 1, 2]) = Ret None"
  by (simp add: validateCommit_def validatePointer_def test_defs Error_New_def elems_def IsZero_def)

lemma FormatInt_1: "FormatInt 1 = ''1''"
  by code_simp

lemma FormatInt_2: "FormatInt 2 = ''2''"
  by code_simp

text \<open>
  C6 (counterexample). The commit of \<open>TestCommitSegment\<close>, one piece under a repair
  threshold of 2 and a success threshold of 4, is rejected with the status \<open>Internal\<close>,
  not \<open>InvalidArgument\<close>.
\<close>

theorem CommitSegment_under_replicated_is_Internal:
  "CommitSegment commit_endpoint empty_db (test_request 1 [0]) =
     Ret (Inl (Internal,
               ''metainfo error: Number of valid pieces is less than or equal to the repair threshold: 1 < 2''),
          empty_db) \<and>
   \<not> (\<exists>msg db'. CommitSegment commit_endpoint empty_db (test_request 1 [0]) =
          Ret (Inl (InvalidArgument, msg), db'))"
proof -
  have f: "filterValidPieces (Pointer (test_request 1 [0])) =
      Ret (Some (Error_New ''Number of valid pieces is less than or equal to the repair threshold: 1 < 2''),
           test_pointer 1 [0])"
    by (simp add: filterValidPieces_def test_defs elems_def FormatInt_1 FormatInt_2)
  have "CommitSegment commit_endpoint empty_db (test_request 1 [0]) =
     Ret (Inl (Internal,
               ''metainfo error: Number of valid pieces is less than or equal to the repair threshold: 1 < 2''),
          empty_db)"
    by (simp add: CommitSegment_def test_auth test_bucket test_commit_1 f Error_New_def Class_New_def)
  then show ?thesis by simp
qed

lemma repair_threshold_in_message:
  "sublist ''repair threshold''
     (ErrorText (Error_New
        (''Number of valid pieces is less than or equal to the repair threshold: '' @ a @ '' < '' @ b)))"
  unfolding sublist_def
  apply (rule exI [of _ "''metainfo error: Number of valid pieces is less than or equal to the ''"])
  apply (rule exI [of _ "'': '' @ a @ '' < '' @ b"])
  apply (simp add: Error_New_def Class_New_def)
  done

text \<open>
  C6 (amended). A commit of a REMOTE pointer that passes the authorization, the bucket
  check and \<open>validateCommit\<close> is rejected with the status \<open>Internal\<close> and a message
  containing "repair threshold" when \<open>|remote_pieces| \<le> repair\<close> and
  \<open>repair \<noteq> optimal\<close>; with more pieces than the repair threshold, or with
  \<open>repair = optimal\<close>, \<open>filterValidPieces\<close> returns no error.
\<close>

theorem CommitSegment_repair_threshold:
  assumes auth: "validateAuth ep \<lparr>Op = ActionWrite, ActionBucket = Bucket req, EncryptedPath = Path req\<rparr> = Inr keyInfo"
    and bucket: "validateBucket (Bucket req) = None"
    and commit: "validateCommit ep req = Ret None"
    and ptr: "Pointer req = Some p" "Type p = REMOTE" "Remote p = Some remote" "Redundancy remote = Some rs"
    and len: "length (elems (RemotePieces remote)) < 2 ^ 31"
  shows "(int (length (elems (RemotePieces remote))) \<le> sint (RepairThreshold rs) \<and>
          RepairThreshold rs \<noteq> SuccessThreshold rs \<longrightarrow>
            (\<exists>msg. CommitSegment ep db req = Ret (Inl (Internal, msg), db) \<and>
                   sublist ''repair threshold'' msg)) \<and>
         (sint (RepairThreshold rs) < int (length (elems (RemotePieces remote))) \<or>
          RepairThreshold rs = SuccessThreshold rs \<longrightarrow>
            filterValidPieces (Pointer req) =
              Ret (None, p\<lparr>Remote := Some (remote\<lparr>RemotePieces :=
                                     appended (elems (RemotePieces remote))\<rparr>)\<rparr>))"
proof -
  have n: "sint (word_of_int (int (length (elems (RemotePieces remote)))) :: int32) =
             int (length (elems (RemotePieces remote)))"
    using len by (rule int32_of_length)
  have rejected: "\<exists>msg. CommitSegment ep db req = Ret (Inl (Internal, msg), db) \<and>
                   sublist ''repair threshold'' msg"
    if "int (length (elems (RemotePieces remote))) \<le> sint (RepairThreshold rs)"
       "RepairThreshold rs \<noteq> SuccessThreshold rs"
  proof -
    let ?msg = "''Number of valid pieces is less than or equal to the repair threshold: ''
                  @ FormatInt (int (length (elems (RemotePieces remote)))) @ '' < ''
                  @ FormatInt (sint (RepairThreshold rs))"
    have f: "filterValidPieces (Pointer req) = Ret (Some (Error_New ?msg), p)"
      using ptr that n unfolding filterValidPieces_def Let_def by simp
    have "CommitSegment ep db req = Ret (Inl (Internal, ErrorText (Error_New ?msg)), db)"
      unfolding CommitSegment_def auth bucket commit f by simp
    then show ?thesis
      using repair_threshold_in_message by blast
  qed
  have accepted: "filterValidPieces (Pointer req) =
       Ret (None, p\<lparr>Remote := Some (remote\<lparr>RemotePieces := appended (elems (RemotePieces remote))\<rparr>)\<rparr>)"
    if "sint (RepairThreshold rs) < int (length (elems (RemotePieces remote))) \<or>
        RepairThreshold rs = SuccessThreshold rs"
    using ptr that n unfolding filterValidPieces_def Let_def by auto
  from rejected accepted show ?thesis by blast
qed

theorem CommitSegment_repair_threshold_witness:
  "(\<exists>msg. CommitSegment commit_endpoint empty_db (test_request 1 [0]) =
            Ret (Inl (Internal, msg), empty_db) \<and> sublist ''repair threshold'' msg) \<and>
   filterValidPieces (Pointer (test_request 1 [0, 1, 2])) = Ret (None, test_pointer 1 [0, 1, 2])"
proof -
  have p: "Pointer (test_request 1 nums) = Some (test_pointer 1 nums)"
      "Type (test_pointer 1 nums) = REMOTE"
      "Remote (test_pointer 1 nums) =
         Some \<lparr>Redundancy = Some (test_scheme 1), RootPieceId = [7],
               RemotePieces = Some (map example_piece nums)\<rparr>"
      "Redundancy \<lparr>Redundancy = Some (test_scheme 1), RootPieceId = [7],
               RemotePieces = Some (map example_piece nums)\<rparr> = Some (test_scheme 1)" for nums
    by (simp_all add: test_request_def test_pointer_def)
  have l: "length (elems (RemotePieces \<lparr>Redundancy = Some (test_scheme 1), RootPieceId = [7],
               RemotePieces = Some (map example_piece nums)\<rparr>)) = length nums" for nums
    by (simp add: elems_def)
  have t: "sint (RepairThreshold (test_scheme 1)) = 2"
     "RepairThreshold (test_scheme 1) \<noteq> SuccessThreshold (test_scheme 1)"
    by (simp_all add: test_scheme_def)
  show ?thesis
    using CommitSegment_repair_threshold [OF test_auth test_bucket test_commit_1 p, of empty_db]
      CommitSegment_repair_threshold [OF test_auth test_bucket test_commit_3 p, of empty_db]
    by (simp add: l t elems_def test_pointer_def appended_def)
qed

subsection \<open>CommitSegment: the space used\<close>

lemma int64_of_int32: "sint (signed w :: int64) = sint (w :: int32)"
  by (rule sint_up_scast) (simp add: is_up)

lemma int64_of_int32_eq_0: "(signed w :: int64) = 0 \<longleftrightarrow> (w :: int32) = 0"
proof
  assume "(signed w :: int64) = 0"
  then have "sint (signed w :: int64) = 0" by simp
  then have "sint w = sint (0 :: int32)" by (simp add: int64_of_int32)
  then show "w = 0" by (rule signed_word_eqI)
next
  assume "w = 0"
  then show "(signed w :: int64) = 0" by simp
qed

lemma filterValidPieces_keeps:
  assumes "filterValidPieces (Some ptr) = Ret (None, ptr')"
  shows "InlineSegment ptr' = InlineSegment ptr \<and>
         GetRedundancy (Remote ptr') = GetRedundancy (Remote ptr) \<and>
         (Remote ptr' = None \<longleftrightarrow> Remote ptr = None)"
  using assms unfolding filterValidPieces_def Let_def
  by (auto simp: GetRedundancy_def split: if_splits option.splits)

lemma mixed_commit: "validateCommit commit_endpoint mixed_request = Ret None"
  by (simp add: validateCommit_def validatePointer_def mixed_request_def mixed_pointer_def
        test_defs Error_New_def elems_def IsZero_def)

lemma mixed_filter:
  "filterValidPieces (Pointer mixed_request) = Ret (None, mixed_pointer)"
  by (simp add: filterValidPieces_def mixed_request_def mixed_pointer_def test_defs elems_def appended_def)

text \<open>
  C10 (counterexample). A pointer of type REMOTE that also carries one inline byte, with
  \<open>MinReq = 0\<close> and three remote pieces, passes \<open>validateCommit\<close> and
  \<open>filterValidPieces\<close>; \<open>calculateSpaceUsed\<close> returns \<open>(1, 0)\<close> for it, and
  \<open>CommitSegment\<close> stores it and returns it: nothing panics.
\<close>

theorem calculateSpaceUsed_remote_with_inline_bytes:
  "Type mixed_pointer = REMOTE \<and>
   Remote mixed_pointer \<noteq> None \<and>
   GetMinReq (GetRedundancy (Remote mixed_pointer)) = 0 \<and>
   length (GetRemotePieces (Remote mixed_pointer)) = 3 \<and>
   validateCommit commit_endpoint mixed_request = Ret None \<and>
   filterValidPieces (Pointer mixed_request) = Ret (None, mixed_pointer) \<and>
   calculateSpaceUsed mixed_pointer = Ret (1, 0) \<and>
   CommitSegment commit_endpoint empty_db mixed_request =
     Ret (Inr mixed_pointer,
          empty_db\<lparr>pointers := [''proj/l/bucket/path'' \<mapsto> mixed_pointer],
                   usage := [(''proj'', 1, 0)]\<rparr>)"
proof -
  have c: "calculateSpaceUsed mixed_pointer = Ret (1, 0)"
    by (simp add: calculateSpaceUsed_def mixed_pointer_def)
  have b: "validateBucket (Bucket mixed_request) = None"
    by (simp add: validateBucket_def mixed_request_def test_request_def)
  have p: "CreatePath ''proj'' (Segment mixed_request) (Bucket mixed_request) (Path mixed_request)
             = Inr ''proj/l/bucket/path''"
    by (simp add: CreatePath_def mixed_request_def test_request_def)
  have t: "Type mixed_pointer = REMOTE" "Remote mixed_pointer \<noteq> None"
     "GetMinReq (GetRedundancy (Remote mixed_pointer)) = 0"
     "length (GetRemotePieces (Remote mixed_pointer)) = 3"
    by (simp_all add: mixed_pointer_def test_pointer_def test_scheme_def GetMinReq_def
          GetRedundancy_def GetRemotePieces_def elems_def)
  have "CommitSegment commit_endpoint empty_db mixed_request =
     Ret (Inr mixed_pointer,
          empty_db\<lparr>pointers := [''proj/l/bucket/path'' \<mapsto> mixed_pointer],
                   usage := [(''proj'', 1, 0)]\<rparr>)"
    by (simp add: CommitSegment_def test_auth b mixed_commit mixed_filter p c t
          metainfo_Put_def metainfo_Get_def empty_db_def)
  with c t mixed_commit mixed_filter show ?thesis by simp
qed

text \<open>
  C10 (amended). \<open>calculateSpaceUsed\<close> looks at the fields of the pointer, not at its
  type. With inline bytes it returns \<open>(|inline bytes|, 0)\<close>; with neither inline bytes nor
  a remote part, \<open>(0, 0)\<close>; with a remote part and no inline bytes,
  \<open>(0, (segment_size / MinReq) * |pieces|)\<close>, the quotient truncated as Go's is and the
  product in 64 bits, when \<open>MinReq \<noteq> 0\<close>, and a panic when \<open>MinReq = 0\<close>; and then
  \<open>CommitSegment\<close> panics too, on a request that passed every check before it.
\<close>

theorem calculateSpaceUsed_unguarded_division:
  "(\<forall>inline. InlineSegment ptr = Some inline \<longrightarrow>
      calculateSpaceUsed ptr = Ret (word_of_int (int (length inline)), 0)) \<and>
   (InlineSegment ptr = None \<and> Remote ptr = None \<longrightarrow> calculateSpaceUsed ptr = Ret (0, 0)) \<and>
   (InlineSegment ptr = None \<and> Remote ptr \<noteq> None \<and> GetMinReq (GetRedundancy (Remote ptr)) \<noteq> 0 \<longrightarrow>
      calculateSpaceUsed ptr =
        Ret (0, word_of_int (sint (SegmentSize ptr) sdiv sint (GetMinReq (GetRedundancy (Remote ptr))))
                * word_of_int (int (length (GetRemotePieces (Remote ptr)))))) \<and>
   (InlineSegment ptr = None \<and> Remote ptr \<noteq> None \<and> GetMinReq (GetRedundancy (Remote ptr)) = 0 \<longrightarrow>
      calculateSpaceUsed ptr = Panic) \<and>
   (\<forall>ep db req keyInfo ptr'.
      Pointer req = Some ptr \<and> InlineSegment ptr = None \<and> Remote ptr \<noteq> None \<and>
      GetMinReq (GetRedundancy (Remote ptr)) = 0 \<and>
      validateAuth ep \<lparr>Op = ActionWrite, ActionBucket = Bucket req, EncryptedPath = Path req\<rparr>
        = Inr keyInfo \<and>
      validateBucket (Bucket req) = None \<and>
      validateCommit ep req = Ret None \<and>
      filterValidPieces (Pointer req) = Ret (None, ptr') \<and>
      \<not> sint (Segment req) < - 1 \<longrightarrow>
      CommitSegment ep db req = Panic)"
proof -
  have inl: "calculateSpaceUsed ptr = Ret (word_of_int (int (length inline)), 0)"
    if "InlineSegment ptr = Some inline" for inline
    using that unfolding calculateSpaceUsed_def by simp
  have none: "calculateSpaceUsed ptr = Ret (0, 0)"
    if "InlineSegment ptr = None" "Remote ptr = None"
    using that unfolding calculateSpaceUsed_def by simp
  have rem: "calculateSpaceUsed ptr =
              Ret (0, word_of_int (sint (SegmentSize ptr) sdiv sint (GetMinReq (GetRedundancy (Remote ptr))))
                      * word_of_int (int (length (GetRemotePieces (Remote ptr)))))"
    if "InlineSegment ptr = None" "Remote ptr \<noteq> None" "GetMinReq (GetRedundancy (Remote ptr)) \<noteq> 0"
    using that unfolding calculateSpaceUsed_def go_div64_def Let_def
    by (auto simp: int64_of_int32 int64_of_int32_eq_0)
  have zero: "calculateSpaceUsed q = Panic"
    if "InlineSegment q = None" "Remote q \<noteq> None" "GetMinReq (GetRedundancy (Remote q)) = 0" for q
    using that unfolding calculateSpaceUsed_def go_div64_def Let_def by simp
  have commit: "CommitSegment ep db req = Panic"
    if r: "Pointer req = Some ptr" "InlineSegment ptr = None" "Remote ptr \<noteq> None"
        "GetMinReq (GetRedundancy (Remote ptr)) = 0"
      and v: "validateAuth ep \<lparr>Op = ActionWrite, ActionBucket = Bucket req, EncryptedPath = Path req\<rparr>
              = Inr keyInfo"
         "validateBucket (Bucket req) = None" "validateCommit ep req = Ret None"
      and f: "filterValidPieces (Pointer req) = Ret (None, ptr')"
      and s: "\<not> sint (Segment req) < - 1"
    for ep db req keyInfo ptr'
  proof -
    from f r have k: "InlineSegment ptr' = InlineSegment ptr"
        "GetRedundancy (Remote ptr') = GetRedundancy (Remote ptr)" "Remote ptr' = None \<longleftrightarrow> Remote ptr = None"
      using filterValidPieces_keeps [of ptr ptr'] by simp_all
    with r have "calculateSpaceUsed ptr' = Panic"
      by (intro zero) simp_all
    then show ?thesis
      unfolding CommitSegment_def v f using s by (simp add: CreatePath_def Let_def)
  qed
  from inl none rem zero [of ptr] commit show ?thesis by blast
qed

theorem calculateSpaceUsed_unguarded_division_witness:
  "calculateSpaceUsed
     \<lparr>Type = INLINE, InlineSegment = Some [1, 2, 3], Remote = None,
      SegmentSize = 3, ExpirationDate = 0, Metadata = []\<rparr> = Ret (3, 0) \<and>
   calculateSpaceUsed (test_pointer 3 [0, 1, 2]) = Ret (0, 999) \<and>
   calculateSpaceUsed (test_pointer 0 [0, 1, 2]) = Panic \<and>
   calculateSpaceUsed ((test_pointer 0 [0, 1, 2])\<lparr>Type := INLINE\<rparr>) = Panic \<and>
   CommitSegment commit_endpoint empty_db (test_request 0 [0, 1, 2]) = Panic"
proof -
  let ?inl = "\<lparr>Type = INLINE, InlineSegment = Some [1, 2, 3], Remote = None,
      SegmentSize = 3, ExpirationDate = 0, Metadata = []\<rparr>"
  have m: "GetMinReq (GetRedundancy (Remote (test_pointer k nums))) = k" for k nums
    by (simp add: GetMinReq_def GetRedundancy_def test_pointer_def test_scheme_def)
  have t: "InlineSegment (test_pointer k nums) = None" "Remote (test_pointer k nums) \<noteq> None"
     "SegmentSize (test_pointer k nums) = 1000"
     "length (GetRemotePieces (Remote (test_pointer k nums))) = length nums" for k nums
    by (simp_all add: test_pointer_def GetRemotePieces_def elems_def)
  have p: "Pointer (test_request k nums) = Some (test_pointer k nums)"
     "\<not> sint (Segment (test_request k nums)) < - 1" for k nums
    by (simp_all add: test_request_def)
  have f: "filterValidPieces (Pointer (test_request 0 [0, 1, 2])) = Ret (None, test_pointer 0 [0, 1, 2])"
    by (simp add: filterValidPieces_def test_defs elems_def appended_def)
  have d: "(1000 :: int) sdiv 3 = 333"
    by (simp add: signed_divide_int_def)
  have c: "CommitSegment commit_endpoint empty_db (test_request 0 [0, 1, 2]) = Panic"
    using calculateSpaceUsed_unguarded_division [of "test_pointer 0 [0, 1, 2]"]
      p [of 0 "[0, 1, 2]"] t(1,2) [of 0 "[0, 1, 2]"] m [of 0 "[0, 1, 2]"]
      test_auth test_bucket [of 0 "[0, 1, 2]"] test_commit_3 [of 0] f
    by blast
  show ?thesis
    using calculateSpaceUsed_unguarded_division [of ?inl]
      calculateSpaceUsed_unguarded_division [of "test_pointer 3 [0, 1, 2]"]
      calculateSpaceUsed_unguarded_division [of "test_pointer 0 [0, 1, 2]"]
      calculateSpaceUsed_unguarded_division [of "(test_pointer 0 [0, 1, 2])\<lparr>Type := INLINE\<rparr>"] c
    by (simp add: m t d elems_def)
qed

end
